theory Spec2Isabelle
  imports Main "HOL-Library.AList"
begin

section \<open>Python string primitives used by the sources\<close>

text \<open>
  Text is modelled as \<^typ>\<open>string\<close>. The sources only split text at a single
  character, join lines with a newline, test for a substring, slice a prefix and
  render a loop index in decimal.
\<close>

definition nl :: char where
  "nl = CHR 0x0A"

text \<open>\<^verbatim>\<open>sub in s\<close> for strings.\<close>

primrec startswith :: "string \<Rightarrow> string \<Rightarrow> bool" where
  "startswith [] sub = (sub = [])"
| "startswith (x # xs) sub = (case sub of [] \<Rightarrow> True | y # ys \<Rightarrow> x = y \<and> startswith xs ys)"

primrec py_in :: "string \<Rightarrow> string \<Rightarrow> bool" where
  "py_in sub [] = (sub = [])"
| "py_in sub (x # xs) = (startswith (x # xs) sub \<or> py_in sub xs)"

text \<open>
  \<^verbatim>\<open>s.split(c)\<close> for a one-character separator: the result is never empty, and
  \<^verbatim>\<open>''.split(c) == ['']\<close>.
\<close>

primrec split_chr :: "char \<Rightarrow> string \<Rightarrow> string list" where
  "split_chr c [] = [[]]"
| "split_chr c (x # xs) =
     (if x = c then [] # split_chr c xs
      else (case split_chr c xs of
              [] \<Rightarrow> [[x]]
            | l # ls \<Rightarrow> (x # l) # ls))"

text \<open>\<^verbatim>\<open>c.join(parts)\<close>.\<close>

fun join_chr :: "char \<Rightarrow> string list \<Rightarrow> string" where
  "join_chr c [] = []"
| "join_chr c [x] = x"
| "join_chr c (x # y # ys) = x @ c # join_chr c (y # ys)"

section \<open>The PEM chain parsers\<close>

definition BEGIN_CERTIFICATE :: string where
  "BEGIN_CERTIFICATE = ''-----BEGIN CERTIFICATE-----''"

definition END_CERTIFICATE :: string where
  "END_CERTIFICATE = ''-----END CERTIFICATE-----''"

definition has_begin :: "string \<Rightarrow> bool" where
  "has_begin line = py_in BEGIN_CERTIFICATE line"

definition has_end :: "string \<Rightarrow> bool" where
  "has_end line = py_in END_CERTIFICATE line"

text \<open>The three loop variables \<^verbatim>\<open>certs\<close>, \<^verbatim>\<open>current_cert\<close>, \<^verbatim>\<open>in_cert\<close>.\<close>

record scan =
  certs :: "string list"
  current_cert :: "string list"
  in_cert :: bool

definition scan_init :: scan where
  "scan_init = \<lparr>certs = [], current_cert = [], in_cert = False\<rparr>"

text \<open>
  One iteration of the loop of \<^verbatim>\<open>extract_root_cert\<close> (both files) and of the
  loop inside \<^verbatim>\<open>generate_stores\<close> of app.py: the end branch clears
  \<^verbatim>\<open>current_cert\<close>.
\<close>

definition extract_step :: "scan \<Rightarrow> string \<Rightarrow> scan" where
  "extract_step st line =
     (if has_begin line then
        st\<lparr>in_cert := True, current_cert := [line]\<rparr>
      else if has_end line then
        st\<lparr>certs := certs st @ [join_chr nl (current_cert st @ [line])],
           in_cert := False, current_cert := []\<rparr>
      else if in_cert st then
        st\<lparr>current_cert := current_cert st @ [line]\<rparr>
      else st)"

text \<open>
  One iteration of the loop of \<^verbatim>\<open>parse_cert_chain\<close> (main.py) and of the loop inside
  \<^verbatim>\<open>analyze_cert\<close> (app.py): the end branch leaves \<^verbatim>\<open>current_cert\<close> as it is after
  the append.
\<close>

definition parse_step :: "scan \<Rightarrow> string \<Rightarrow> scan" where
  "parse_step st line =
     (if has_begin line then
        st\<lparr>in_cert := True, current_cert := [line]\<rparr>
      else if has_end line then
        st\<lparr>certs := certs st @ [join_chr nl (current_cert st @ [line])],
           in_cert := False, current_cert := current_cert st @ [line]\<rparr>
      else if in_cert st then
        st\<lparr>current_cert := current_cert st @ [line]\<rparr>
      else st)"

definition extract_all :: "string \<Rightarrow> string list" where
  "extract_all content = certs (foldl extract_step scan_init (split_chr nl content))"

definition extract_root_cert :: "string \<Rightarrow> string option" where
  "extract_root_cert ca_chain_content =
     (case extract_all ca_chain_content of [] \<Rightarrow> None | c # _ \<Rightarrow> Some c)"

definition parse_cert_chain :: "string \<Rightarrow> string list" where
  "parse_cert_chain content = certs (foldl parse_step scan_init (split_chr nl content))"


section \<open>Parsing a chain of well-formed blocks\<close>




definition plain :: "string \<Rightarrow> bool" where
  "plain l = (\<not> has_begin l \<and> \<not> has_end l)"




lemma split_chr_nonempty: "split_chr c s \<noteq> []"
  by (induction s) (auto split: list.splits)

lemma split_chr_no_sep: "c \<notin> set s \<Longrightarrow> split_chr c s = [s]"
  by (induction s) auto

lemma split_chr_append: "split_chr c (a @ c # b) = split_chr c a @ split_chr c b"
  by (induction a) (auto split: list.splits simp: split_chr_nonempty)
















section \<open>Unterminated blocks\<close>









section \<open>End markers outside a block\<close>

text \<open>
  The end branch of both loops does not test \<^verbatim>\<open>in_cert\<close>, so an end line that
  stands outside every block is emitted as a block of its own; in
  \<^verbatim>\<open>parse_cert_chain\<close>, which keeps \<^verbatim>\<open>current_cert\<close>, it is emitted together
  with the lines of the block before it.
\<close>

lemma plain_line_outside_ignored:
  "\<not> in_cert st \<Longrightarrow> plain l \<Longrightarrow> parse_step st l = st \<and> extract_step st l = st"
  by (simp add: parse_step_def extract_step_def plain_def)

text \<open>
  C5. Lines outside a block are ignored and an input without a valid block gives the
  empty list: evaluated on a text that is a single end line, and on a block followed
  by a second end line, both parsers emit an extra block.
\<close>

theorem stray_end_line_emits_block:
  "parse_cert_chain ''-----END CERTIFICATE-----'' = [''-----END CERTIFICATE-----'']
   \<and> extract_root_cert ''-----END CERTIFICATE-----'' = Some ''-----END CERTIFICATE-----''
   \<and> parse_cert_chain ''-----BEGIN CERTIFICATE-----\<newline>AAAA\<newline>-----END CERTIFICATE-----\<newline>-----END CERTIFICATE-----''
       = [''-----BEGIN CERTIFICATE-----\<newline>AAAA\<newline>-----END CERTIFICATE-----'',
          ''-----BEGIN CERTIFICATE-----\<newline>AAAA\<newline>-----END CERTIFICATE-----\<newline>-----END CERTIFICATE-----'']"
  by code_simp



section \<open>The environment of the pipeline\<close>

text \<open>
  The sources create a temporary directory, write and read files and run external
  programs. Each of these can raise; the outcome of every such operation is given
  by the environment, and every operation that is attempted is recorded, in order,
  as an event. An exception is the value of \<^verbatim>\<open>str(e)\<close> together with whether it
  is a \<^verbatim>\<open>subprocess.TimeoutExpired\<close>, the only class the sources tell apart.
\<close>

datatype exn = PyError string | TimeoutExpired string

fun str_exn :: "exn \<Rightarrow> string" where
  "str_exn (PyError m) = m"
| "str_exn (TimeoutExpired m) = m"

text \<open>The arguments of one \<^verbatim>\<open>subprocess.run\<close> call and what it returns.\<close>

record proc_call =
  argv :: "string list"
  timeout :: "nat option"
  cwd :: "string option"
  stdin :: "string option"

record completed =
  returncode :: int
  stdout :: string
  stderr :: string

datatype event =
    Wrote string string
  | Ran proc_call
  | ReadBack string
  | Removed string

record env =
  mkdtemp :: "exn + string"
  write_file :: "string \<Rightarrow> string \<Rightarrow> exn option"
  read_file :: "string \<Rightarrow> exn + string"
  subprocess_run :: "proc_call \<Rightarrow> exn + completed"
  which :: "string \<Rightarrow> string option"
  utf8_decode :: "string \<Rightarrow> exn + string"

text \<open>The external programs that a run invoked, in order.\<close>

fun invoked :: "event list \<Rightarrow> proc_call list" where
  "invoked [] = []"
| "invoked (Ran c # evs) = c # invoked evs"
| "invoked (_ # evs) = invoked evs"

text \<open>
  \<^verbatim>\<open>os.path.join(work_dir, name)\<close> for a directory returned by \<^verbatim>\<open>mkdtemp\<close>
  (an absolute path without a trailing separator) and a relative name.
\<close>

definition path_join :: "string \<Rightarrow> string \<Rightarrow> string" where
  "path_join dir name = dir @ ''/'' @ name"

text \<open>The decimal rendering of a loop index or a length in an f-string.\<close>

definition digit_chr :: "nat \<Rightarrow> char" where
  "digit_chr d = char_of (48 + d)"

function str_nat :: "nat \<Rightarrow> string" where
  "str_nat n = (if n < 10 then [digit_chr n] else str_nat (n div 10) @ [digit_chr (n mod 10)])"
  by pat_completeness auto
termination
  by (relation "measure id") auto

declare str_nat.simps [simp del]

definition run_cmd :: "string list \<Rightarrow> proc_call" where
  "run_cmd args = \<lparr>argv = args, timeout = None, cwd = None, stdin = None\<rparr>"

section \<open>The store assembly pipeline (app.py)\<close>

text \<open>The dictionary \<^verbatim>\<open>results\<close>; the last two keys are absent until they are assigned.\<close>

record results =
  success :: bool
  files :: "(string \<times> string) list"
  errors :: "string list"
  info :: "string list"
  pem_files :: "(string \<times> string) list option"
  passwords :: "(string \<times> string) list option"

definition results_init :: results where
  "results_init = \<lparr>success = False, files = [], errors = [], info = [],
                     pem_files = None, passwords = None\<rparr>"

text \<open>
  How the body of the \<^verbatim>\<open>try\<close> block ends: it runs to its last statement, it
  leaves through a \<^verbatim>\<open>return results\<close>, or it raises.
\<close>

datatype flow = Finished | Returned | Raised exn

definition ca_temp_path :: "string \<Rightarrow> nat \<Rightarrow> string" where
  "ca_temp_path work_dir i = path_join work_dir (''ca_'' @ str_nat i @ ''.pem'')"

definition cmd_truststore :: "string \<Rightarrow> string \<Rightarrow> string \<Rightarrow> nat \<Rightarrow> proc_call" where
  "cmd_truststore work_dir alias truststore_password i =
     run_cmd [''keytool'', ''-import'', ''-file'', ca_temp_path work_dir i,
              ''-alias'', alias @ ''-ca-'' @ str_nat i,
              ''-keystore'', path_join work_dir ''truststore.jks'',
              ''-storepass'', truststore_password,
              ''-noprompt'']"

definition cmd_p12 :: "string \<Rightarrow> string \<Rightarrow> string \<Rightarrow> proc_call" where
  "cmd_p12 work_dir alias keystore_password =
     run_cmd [''openssl'', ''pkcs12'', ''-export'',
              ''-in'', path_join work_dir ''bundle'',
              ''-inkey'', path_join work_dir ''key'',
              ''-name'', alias,
              ''-out'', path_join work_dir ''keystore.p12'',
              ''-passout'', ''pass:'' @ keystore_password]"

definition cmd_jks :: "string \<Rightarrow> string \<Rightarrow> string \<Rightarrow> proc_call" where
  "cmd_jks work_dir alias keystore_password =
     run_cmd [''keytool'', ''-importkeystore'',
              ''-srckeystore'', path_join work_dir ''keystore.p12'',
              ''-srcstoretype'', ''pkcs12'',
              ''-srcstorepass'', keystore_password,
              ''-destkeystore'', path_join work_dir ''keystore.jks'',
              ''-deststoretype'', ''jks'',
              ''-deststorepass'', keystore_password,
              ''-alias'', alias]"

text \<open>
  Step 1, the loop over \<^verbatim>\<open>enumerate(certs)\<close>: it ends normally, returns at the first
  non-zero exit status (with the index and the error stream), or raises.
\<close>

datatype import_outcome = Imported | ImportFailed nat string | ImportRaised exn

fun import_certs ::
  "env \<Rightarrow> string \<Rightarrow> string \<Rightarrow> string \<Rightarrow> nat \<Rightarrow> string list \<Rightarrow> import_outcome \<times> event list"
where
  "import_certs e work_dir alias tpw i [] = (Imported, [])"
| "import_certs e work_dir alias tpw i (cert_pem # rest) =
     (case write_file e (ca_temp_path work_dir i) cert_pem of
        Some ex \<Rightarrow> (ImportRaised ex, [Wrote (ca_temp_path work_dir i) cert_pem])
      | None \<Rightarrow>
          (case subprocess_run e (cmd_truststore work_dir alias tpw i) of
             Inl ex \<Rightarrow>
               (ImportRaised ex,
                [Wrote (ca_temp_path work_dir i) cert_pem,
                 Ran (cmd_truststore work_dir alias tpw i)])
           | Inr result \<Rightarrow>
               if returncode result \<noteq> 0 then
                 (ImportFailed i (stderr result),
                  [Wrote (ca_temp_path work_dir i) cert_pem,
                   Ran (cmd_truststore work_dir alias tpw i)])
               else
                 (case import_certs e work_dir alias tpw (Suc i) rest of
                    (out, evs) \<Rightarrow>
                      (out,
                       Wrote (ca_temp_path work_dir i) cert_pem
                       # Ran (cmd_truststore work_dir alias tpw i) # evs))))"

text \<open>Reading the three generated files back, and the assignments that follow.\<close>

definition read_generated ::
  "env \<Rightarrow> string \<Rightarrow> string \<Rightarrow> string \<Rightarrow> string \<Rightarrow> string \<Rightarrow> string
   \<Rightarrow> results \<Rightarrow> flow \<times> results \<times> event list"
where
  "read_generated e work_dir ca_chain bundle key tpw kpw r =
     (case read_file e (path_join work_dir ''truststore.jks'') of
        Inl ex \<Rightarrow> (Raised ex, r, [ReadBack (path_join work_dir ''truststore.jks'')])
      | Inr b1 \<Rightarrow>
          let r1 = r\<lparr>files := AList.update ''truststore.jks'' b1 (files r)\<rparr> in
          (case read_file e (path_join work_dir ''keystore.jks'') of
             Inl ex \<Rightarrow>
               (Raised ex, r1,
                [ReadBack (path_join work_dir ''truststore.jks''),
                 ReadBack (path_join work_dir ''keystore.jks'')])
           | Inr b2 \<Rightarrow>
               let r2 = r1\<lparr>files := AList.update ''keystore.jks'' b2 (files r1)\<rparr> in
               (case read_file e (path_join work_dir ''keystore.p12'') of
                  Inl ex \<Rightarrow>
                    (Raised ex, r2,
                     [ReadBack (path_join work_dir ''truststore.jks''),
                      ReadBack (path_join work_dir ''keystore.jks''),
                      ReadBack (path_join work_dir ''keystore.p12'')])
                | Inr b3 \<Rightarrow>
                    (Finished,
                     r2\<lparr>files := AList.update ''keystore.p12'' b3 (files r2),
                        pem_files := Some [(''ca_chain'', ca_chain), (''bundle'', bundle),
                                           (''key'', key)],
                        passwords := Some [(''truststore'', tpw), (''keystore'', kpw)],
                        success := True\<rparr>,
                     [ReadBack (path_join work_dir ''truststore.jks''),
                      ReadBack (path_join work_dir ''keystore.jks''),
                      ReadBack (path_join work_dir ''keystore.p12'')]))))"

text \<open>Step 3, the conversion of the PKCS#12 file, then the read-back.\<close>

definition convert_jks ::
  "env \<Rightarrow> string \<Rightarrow> string \<Rightarrow> string \<Rightarrow> string \<Rightarrow> string \<Rightarrow> string \<Rightarrow> string
   \<Rightarrow> results \<Rightarrow> flow \<times> results \<times> event list"
where
  "convert_jks e work_dir ca_chain bundle key alias tpw kpw r =
     (case subprocess_run e (cmd_jks work_dir alias kpw) of
        Inl ex \<Rightarrow> (Raised ex, r, [Ran (cmd_jks work_dir alias kpw)])
      | Inr result \<Rightarrow>
          if returncode result \<noteq> 0 then
            (Returned,
             r\<lparr>errors := errors r @ [''JKS conversion failed: '' @ stderr result]\<rparr>,
             [Ran (cmd_jks work_dir alias kpw)])
          else
            (case read_generated e work_dir ca_chain bundle key tpw kpw
                    (r\<lparr>info := info r @ [''JKS keystore created successfully'']\<rparr>) of
               (fl, r', evs) \<Rightarrow> (fl, r', Ran (cmd_jks work_dir alias kpw) # evs)))"

text \<open>Step 2, the PKCS#12 export, then step 3.\<close>

definition export_p12 ::
  "env \<Rightarrow> string \<Rightarrow> string \<Rightarrow> string \<Rightarrow> string \<Rightarrow> string \<Rightarrow> string \<Rightarrow> string
   \<Rightarrow> results \<Rightarrow> flow \<times> results \<times> event list"
where
  "export_p12 e work_dir ca_chain bundle key alias tpw kpw r =
     (case subprocess_run e (cmd_p12 work_dir alias kpw) of
        Inl ex \<Rightarrow> (Raised ex, r, [Ran (cmd_p12 work_dir alias kpw)])
      | Inr result \<Rightarrow>
          if returncode result \<noteq> 0 then
            (Returned,
             r\<lparr>errors := errors r @ [''P12 creation failed: '' @ stderr result]\<rparr>,
             [Ran (cmd_p12 work_dir alias kpw)])
          else
            (case convert_jks e work_dir ca_chain bundle key alias tpw kpw
                    (r\<lparr>info := info r @ [''P12 keystore created successfully'']\<rparr>) of
               (fl, r', evs) \<Rightarrow> (fl, r', Ran (cmd_p12 work_dir alias kpw) # evs)))"

text \<open>The extraction of the certificates and step 1, then step 2.\<close>

definition build_truststore ::
  "env \<Rightarrow> string \<Rightarrow> string \<Rightarrow> string \<Rightarrow> string \<Rightarrow> string \<Rightarrow> string \<Rightarrow> string
   \<Rightarrow> results \<Rightarrow> flow \<times> results \<times> event list"
where
  "build_truststore e work_dir ca_chain bundle key alias tpw kpw r =
     (let certs = extract_all ca_chain in
      if certs = [] then
        (Returned,
         r\<lparr>errors := errors r @ [''Could not extract certificates from CA chain'']\<rparr>, [])
      else
        (case import_certs e work_dir alias tpw 0 certs of
           (ImportRaised ex, evs) \<Rightarrow> (Raised ex, r, evs)
         | (ImportFailed i err, evs) \<Rightarrow>
             (Returned,
              r\<lparr>errors := errors r
                   @ [''Truststore creation failed for cert '' @ str_nat i @ '': '' @ err]\<rparr>,
              evs)
         | (Imported, evs) \<Rightarrow>
             (case export_p12 e work_dir ca_chain bundle key alias tpw kpw
                     (r\<lparr>info := info r
                          @ [''Truststore created successfully with ''
                             @ str_nat (length certs) @ '' CA certificates'']\<rparr>) of
                (fl, r', evs') \<Rightarrow> (fl, r', evs @ evs'))))"

text \<open>The body of the \<^verbatim>\<open>try\<close> block: the three inputs are written first.\<close>

definition input_writes :: "string \<Rightarrow> string \<Rightarrow> string \<Rightarrow> string \<Rightarrow> event list" where
  "input_writes work_dir ca_chain bundle key =
     [Wrote (path_join work_dir ''CA_chain'') ca_chain,
      Wrote (path_join work_dir ''bundle'') bundle,
      Wrote (path_join work_dir ''key'') key]"

definition generate_body ::
  "env \<Rightarrow> string \<Rightarrow> string \<Rightarrow> string \<Rightarrow> string \<Rightarrow> string \<Rightarrow> string \<Rightarrow> string
   \<Rightarrow> flow \<times> results \<times> event list"
where
  "generate_body e work_dir ca_chain bundle key alias tpw kpw =
     (case write_file e (path_join work_dir ''CA_chain'') ca_chain of
        Some ex \<Rightarrow> (Raised ex, results_init, take 1 (input_writes work_dir ca_chain bundle key))
      | None \<Rightarrow>
          (case write_file e (path_join work_dir ''bundle'') bundle of
             Some ex \<Rightarrow>
               (Raised ex, results_init, take 2 (input_writes work_dir ca_chain bundle key))
           | None \<Rightarrow>
               (case write_file e (path_join work_dir ''key'') key of
                  Some ex \<Rightarrow>
                    (Raised ex, results_init, input_writes work_dir ca_chain bundle key)
                | None \<Rightarrow>
                    (case build_truststore e work_dir ca_chain bundle key alias tpw kpw
                            results_init of
                       (fl, r, evs) \<Rightarrow>
                         (fl, r, input_writes work_dir ca_chain bundle key @ evs)))))"

text \<open>
  \<^verbatim>\<open>generate_stores\<close>: \<^verbatim>\<open>mkdtemp\<close> is called before the \<^verbatim>\<open>try\<close>, so its exception
  leaves the function; an exception of the body is caught and its text appended to
  the errors; the work directory is removed on every path.
\<close>

definition generate_stores ::
  "env \<Rightarrow> string \<Rightarrow> string \<Rightarrow> string \<Rightarrow> string \<Rightarrow> string \<Rightarrow> string
   \<Rightarrow> (exn + results) \<times> event list"
where
  "generate_stores e ca_chain bundle key alias truststore_password keystore_password =
     (case mkdtemp e of
        Inl ex \<Rightarrow> (Inl ex, [])
      | Inr work_dir \<Rightarrow>
          (case generate_body e work_dir ca_chain bundle key alias
                  truststore_password keystore_password of
             (Raised ex, r, evs) \<Rightarrow>
               (Inr (r\<lparr>errors := errors r @ [str_exn ex]\<rparr>), evs @ [Removed work_dir])
           | (_, r, evs) \<Rightarrow> (Inr r, evs @ [Removed work_dir])))"



section \<open>The success flag and the artifact map\<close>

text \<open>
  The vocabulary of the invariant. A call exits with status zero when it returns and
  its return code is zero; the required steps of a run over a chain of \<open>n\<close>
  certificates are the \<open>n\<close> imports, the export and the conversion, in this order;
  the steps of a run are in order when exactly these programs were invoked and each
  exited with status zero; the artifacts are read when the three files can be read.
\<close>

definition exit_zero :: "env \<Rightarrow> proc_call \<Rightarrow> bool" where
  "exit_zero e c = (case subprocess_run e c of Inl ex \<Rightarrow> False | Inr result \<Rightarrow> returncode result = 0)"

definition read_ok :: "env \<Rightarrow> string \<Rightarrow> bool" where
  "read_ok e path = (case read_file e path of Inl ex \<Rightarrow> False | Inr content \<Rightarrow> True)"

definition import_calls :: "string \<Rightarrow> string \<Rightarrow> string \<Rightarrow> nat \<Rightarrow> proc_call list" where
  "import_calls work_dir alias tpw n = map (cmd_truststore work_dir alias tpw) [0..<n]"

definition required_steps :: "string \<Rightarrow> string \<Rightarrow> string \<Rightarrow> string \<Rightarrow> nat \<Rightarrow> proc_call list" where
  "required_steps work_dir alias tpw kpw n =
     import_calls work_dir alias tpw n @ [cmd_p12 work_dir alias kpw, cmd_jks work_dir alias kpw]"

definition steps_ok :: "env \<Rightarrow> string \<Rightarrow> string \<Rightarrow> string \<Rightarrow> string \<Rightarrow> string \<Rightarrow> event list \<Rightarrow> bool" where
  "steps_ok e work_dir ca_chain alias tpw kpw evs =
     (invoked evs = required_steps work_dir alias tpw kpw (length (extract_all ca_chain))
      \<and> list_all (exit_zero e) (invoked evs))"

definition artifacts_read :: "env \<Rightarrow> string \<Rightarrow> bool" where
  "artifacts_read e work_dir =
     (read_ok e (path_join work_dir ''truststore.jks'')
      \<and> read_ok e (path_join work_dir ''keystore.jks'')
      \<and> read_ok e (path_join work_dir ''keystore.p12''))"

lemma invoked_append: "invoked (xs @ ys) = invoked xs @ invoked ys"
  by (induction xs rule: invoked.induct) auto

lemma import_certs_invoked:
  "import_certs e wd alias tpw i cs = (out, evs) \<Longrightarrow>
   (out = Imported \<longrightarrow>
      invoked evs = map (cmd_truststore wd alias tpw) [i..<i + length cs]
      \<and> list_all (exit_zero e) (invoked evs))
   \<and> (out \<noteq> Imported \<longrightarrow> length (invoked evs) \<le> length cs)"
proof (induction cs arbitrary: i out evs)
  case Nil
  then show ?case by simp
next
  case (Cons c cs)
  show ?case
  proof (cases "write_file e (ca_temp_path wd i) c")
    case (Some ex)
    with Cons.prems show ?thesis by auto
  next
    case None
    show ?thesis
    proof (cases "subprocess_run e (cmd_truststore wd alias tpw i)")
      case (Inl ex)
      with None Cons.prems show ?thesis by auto
    next
      case (Inr result)
      show ?thesis
      proof (cases "returncode result = 0")
        case False
        with None Inr Cons.prems show ?thesis by auto
      next
        case True
        obtain out' evs' where rec: "import_certs e wd alias tpw (Suc i) cs = (out', evs')"
          by (cases "import_certs e wd alias tpw (Suc i) cs")
        with None Inr True Cons.prems
        have eq: "out = out'" "evs = Wrote (ca_temp_path wd i) c # Ran (cmd_truststore wd alias tpw i) # evs'"
          by auto
        have z: "exit_zero e (cmd_truststore wd alias tpw i)"
          using Inr True by (simp add: exit_zero_def)
        have up: "[i..<i + length (c # cs)] = i # [Suc i..<Suc i + length cs]"
          using upt_conv_Cons[of i "i + length (c # cs)"] by (simp del: upt_Suc)
        from Cons.IH[OF rec] eq z show ?thesis
          unfolding up by (auto simp del: upt_Suc)
      qed
    qed
  qed
qed


lemma read_generated_spec:
  assumes "read_generated e wd ca bundle key tpw kpw r0 = (fl, r, evs)"
    and "\<not> success r0" and "files r0 = []"
  shows "invoked evs = [] \<and> (success r \<longleftrightarrow> artifacts_read e wd)
         \<and> (\<not> read_ok e (path_join wd ''truststore.jks'') \<longrightarrow> files r = [])"
  using assms
  by (auto simp: read_generated_def artifacts_read_def read_ok_def Let_def split: sum.splits)

lemma convert_jks_spec:
  assumes "convert_jks e wd ca bundle key alias tpw kpw r0 = (fl, r, evs)"
    and "\<not> success r0" and "files r0 = []"
  shows "invoked evs = [cmd_jks wd alias kpw]
         \<and> (success r \<longleftrightarrow> exit_zero e (cmd_jks wd alias kpw) \<and> artifacts_read e wd)
         \<and> (\<not> (exit_zero e (cmd_jks wd alias kpw)
                \<and> read_ok e (path_join wd ''truststore.jks'')) \<longrightarrow> files r = [])"
proof (cases "subprocess_run e (cmd_jks wd alias kpw)")
  case (Inl ex)
  with assms show ?thesis by (auto simp: convert_jks_def exit_zero_def)
next
  case (Inr result)
  show ?thesis
  proof (cases "returncode result = 0")
    case False
    with Inr assms show ?thesis by (auto simp: convert_jks_def exit_zero_def)
  next
    case True
    let ?r1 = "r0\<lparr>info := info r0 @ [''JKS keystore created successfully'']\<rparr>"
    obtain fl' r' evs' where rg: "read_generated e wd ca bundle key tpw kpw ?r1 = (fl', r', evs')"
      by (cases "read_generated e wd ca bundle key tpw kpw ?r1") auto
    from assms(2,3) have "\<not> success ?r1" "files ?r1 = []" by simp_all
    from read_generated_spec[OF rg this] rg Inr True assms(1) show ?thesis
      by (auto simp: convert_jks_def exit_zero_def)
  qed
qed

lemma export_p12_spec:
  assumes "export_p12 e wd ca bundle key alias tpw kpw r0 = (fl, r, evs)"
    and "\<not> success r0" and "files r0 = []"
  shows "(invoked evs = [cmd_p12 wd alias kpw, cmd_jks wd alias kpw]
            \<longleftrightarrow> exit_zero e (cmd_p12 wd alias kpw))
         \<and> (\<not> exit_zero e (cmd_p12 wd alias kpw) \<longrightarrow> invoked evs = [cmd_p12 wd alias kpw])
         \<and> (success r \<longleftrightarrow> exit_zero e (cmd_p12 wd alias kpw)
                \<and> exit_zero e (cmd_jks wd alias kpw) \<and> artifacts_read e wd)
         \<and> (\<not> (exit_zero e (cmd_p12 wd alias kpw) \<and> exit_zero e (cmd_jks wd alias kpw)
                \<and> read_ok e (path_join wd ''truststore.jks''))
                \<longrightarrow> files r = [])"
proof (cases "subprocess_run e (cmd_p12 wd alias kpw)")
  case (Inl ex)
  with assms show ?thesis by (auto simp: export_p12_def exit_zero_def)
next
  case (Inr result)
  show ?thesis
  proof (cases "returncode result = 0")
    case False
    with Inr assms show ?thesis by (auto simp: export_p12_def exit_zero_def)
  next
    case True
    let ?r1 = "r0\<lparr>info := info r0 @ [''P12 keystore created successfully'']\<rparr>"
    obtain fl' r' evs' where cj: "convert_jks e wd ca bundle key alias tpw kpw ?r1 = (fl', r', evs')"
      by (cases "convert_jks e wd ca bundle key alias tpw kpw ?r1") auto
    from assms(2,3) have "\<not> success ?r1" "files ?r1 = []" by simp_all
    from convert_jks_spec[OF cj this] cj Inr True assms(1) show ?thesis
      by (auto simp: export_p12_def exit_zero_def)
  qed
qed

lemma build_truststore_spec:
  assumes "build_truststore e wd ca bundle key alias tpw kpw r0 = (fl, r, evs)"
    and "\<not> success r0" and "files r0 = []"
  shows "(success r \<longleftrightarrow> steps_ok e wd ca alias tpw kpw evs \<and> artifacts_read e wd)
         \<and> (\<not> (steps_ok e wd ca alias tpw kpw evs
                \<and> read_ok e (path_join wd ''truststore.jks'')) \<longrightarrow> files r = [])"
proof (cases "extract_all ca = []")
  case True
  with assms show ?thesis
    by (auto simp: build_truststore_def steps_ok_def required_steps_def import_calls_def)
next
  case False
  let ?n = "length (extract_all ca)"
  obtain out ievs where ic: "import_certs e wd alias tpw 0 (extract_all ca) = (out, ievs)"
    by (cases "import_certs e wd alias tpw 0 (extract_all ca)") auto
  note spec = import_certs_invoked[OF ic]
  show ?thesis
  proof (cases "out = Imported")
    case no: False
    with spec have len: "length (invoked ievs) \<le> ?n" by simp
    from no ic False assms have "evs = ievs" "files r = []" "\<not> success r"
      by (cases out; auto simp: build_truststore_def)+
    moreover have "invoked ievs \<noteq> required_steps wd alias tpw kpw ?n"
    proof
      assume "invoked ievs = required_steps wd alias tpw kpw ?n"
      then have "length (invoked ievs) = ?n + 2"
        by (simp add: required_steps_def import_calls_def)
      with len show False by simp
    qed
    ultimately show ?thesis by (simp add: steps_ok_def)
  next
    case True
    with spec have ri: "invoked ievs = import_calls wd alias tpw ?n" "list_all (exit_zero e) (invoked ievs)"
      by (auto simp: import_calls_def)
    let ?r1 = "r0\<lparr>info := info r0 @ [''Truststore created successfully with ''
                             @ str_nat ?n @ '' CA certificates'']\<rparr>"
    obtain fl' r' evs' where ex: "export_p12 e wd ca bundle key alias tpw kpw ?r1 = (fl', r', evs')"
      by (cases "export_p12 e wd ca bundle key alias tpw kpw ?r1") auto
    from assms(2,3) have "\<not> success ?r1" "files ?r1 = []" by simp_all
    note es = export_p12_spec[OF ex this]
    from True ic False ex assms(1) have eq: "r = r'" "evs = ievs @ evs'"
      by (auto simp: build_truststore_def Let_def)
    show ?thesis
    proof (cases "exit_zero e (cmd_p12 wd alias kpw)")
      case p: True
      with es have "invoked evs' = [cmd_p12 wd alias kpw, cmd_jks wd alias kpw]" by simp
      with eq ri p es show ?thesis
        by (auto simp: steps_ok_def required_steps_def invoked_append)
    next
      case p: False
      with es have "invoked evs' = [cmd_p12 wd alias kpw]" "files r' = []" "\<not> success r'" by simp_all
      with eq ri show ?thesis
        by (auto simp: steps_ok_def required_steps_def invoked_append)
    qed
  qed
qed

lemma generate_body_spec:
  assumes "generate_body e wd ca bundle key alias tpw kpw = (fl, r, evs)"
  shows "(success r \<longleftrightarrow> steps_ok e wd ca alias tpw kpw evs \<and> artifacts_read e wd)
         \<and> (\<not> (steps_ok e wd ca alias tpw kpw evs
                \<and> read_ok e (path_join wd ''truststore.jks'')) \<longrightarrow> files r = [])"
proof (cases "write_file e (path_join wd ''CA_chain'') ca = None
              \<and> write_file e (path_join wd ''bundle'') bundle = None
              \<and> write_file e (path_join wd ''key'') key = None")
  case False
  with assms have "invoked evs = []" "\<not> success r" "files r = []"
    by (auto simp: generate_body_def input_writes_def results_init_def split: option.splits)
  then show ?thesis
    by (simp add: steps_ok_def required_steps_def)
next
  case True
  obtain fl' r' evs' where bt:
    "build_truststore e wd ca bundle key alias tpw kpw results_init = (fl', r', evs')"
    by (cases "build_truststore e wd ca bundle key alias tpw kpw results_init") auto
  have "\<not> success results_init" "files results_init = []"
    by (simp_all add: results_init_def)
  note bs = build_truststore_spec[OF bt this]
  from True bt assms have "r = r'" "invoked evs = invoked evs'"
    by (auto simp: generate_body_def input_writes_def)
  with bs show ?thesis by (simp add: steps_ok_def)
qed

text \<open>
  What the code keeps of the invariant. The result has \<^verbatim>\<open>success = True\<close> exactly
  when every required step was invoked and exited with status zero and the three
  artifacts were read back; and the artifact map is empty unless every required
  step exited with status zero and the trust-store, the first artifact, was read.
\<close>

theorem success_iff_steps_and_artifacts:
  assumes "mkdtemp e = Inr wd"
    and "fst (generate_stores e ca bundle key alias tpw kpw) = Inr r"
  shows "(success r \<longleftrightarrow>
            steps_ok e wd ca alias tpw kpw (snd (generate_stores e ca bundle key alias tpw kpw))
            \<and> artifacts_read e wd)
         \<and> (\<not> (steps_ok e wd ca alias tpw kpw
                     (snd (generate_stores e ca bundle key alias tpw kpw))
                \<and> read_ok e (path_join wd ''truststore.jks''))
              \<longrightarrow> files r = [])"
proof -
  obtain fl r' evs' where gb: "generate_body e wd ca bundle key alias tpw kpw = (fl, r', evs')"
    by (cases "generate_body e wd ca bundle key alias tpw kpw") auto
  note bs = generate_body_spec[OF gb]
  from assms gb have "success r = success r'" "files r = files r'"
    "invoked (snd (generate_stores e ca bundle key alias tpw kpw)) = invoked evs'"
    by (auto simp: generate_stores_def invoked_append split: flow.splits)
  with bs show ?thesis by (simp add: steps_ok_def)
qed


subsection \<open>Concrete environments\<close>

text \<open>
  A chain of two certificates; an environment where every operation succeeds, one
  where only the trust-store can be read back, and one where the import of the second
  certificate exits with status 1.
\<close>

definition two_cert_chain :: string where
  "two_cert_chain = ''-----BEGIN CERTIFICATE-----\<newline>AAAA\<newline>-----END CERTIFICATE-----\<newline>-----BEGIN CERTIFICATE-----\<newline>BBBB\<newline>-----END CERTIFICATE-----\<newline>''"

definition completed_ok :: completed where
  "completed_ok = \<lparr>returncode = 0, stdout = [], stderr = []\<rparr>"

definition env_all_ok :: env where
  "env_all_ok =
     \<lparr>mkdtemp = Inr ''/tmp/w'',
      write_file = (\<lambda>path content. None),
      read_file = (\<lambda>path. Inr ''DATA''),
      subprocess_run = (\<lambda>c. Inr completed_ok),
      which = (\<lambda>name. None),
      utf8_decode = (\<lambda>raw. Inr raw)\<rparr>"

definition env_keystore_unreadable :: env where
  "env_keystore_unreadable =
     env_all_ok\<lparr>read_file := (\<lambda>path. if path = ''/tmp/w/truststore.jks'' then Inr ''DATA''
                                      else Inl (PyError ''No such file or directory''))\<rparr>"


text \<open>
  C1. The result has \<^verbatim>\<open>success = True\<close> exactly when every step exited with status
  zero and every artifact was read back, and a result with \<^verbatim>\<open>success = False\<close> has
  an empty artifact map. The code breaks the last part where the read-back stops
  half-way: evaluated on a run whose steps all exit with status zero, whose trust-store
  is read and whose key-store cannot be read, the result has \<^verbatim>\<open>success = False\<close> and
  an artifact map that still holds the trust-store. The \<^verbatim>\<open>except\<close> handler appends
  the error and leaves \<^verbatim>\<open>files\<close> as the reads filled it.
\<close>

theorem failed_run_keeps_artifact:
  "fst (generate_stores env_keystore_unreadable two_cert_chain ''B'' ''K'' ''client'' ''tp'' ''kp'')
   = Inr \<lparr>success = False,
          files = [(''truststore.jks'', ''DATA'')],
          errors = [''No such file or directory''],
          info = [''Truststore created successfully with 2 CA certificates'',
                  ''P12 keystore created successfully'',
                  ''JKS keystore created successfully''],
          pem_files = None, passwords = None\<rparr>"
  by code_simp

theorem success_iff_steps_and_artifacts_witness:
  "mkdtemp env_all_ok = Inr ''/tmp/w''
   \<and> fst (generate_stores env_all_ok two_cert_chain ''B'' ''K'' ''client'' ''tp'' ''kp'')
       = Inr \<lparr>success = True,
              files = [(''truststore.jks'', ''DATA''), (''keystore.jks'', ''DATA''),
                       (''keystore.p12'', ''DATA'')],
              errors = [],
              info = [''Truststore created successfully with 2 CA certificates'',
                      ''P12 keystore created successfully'',
                      ''JKS keystore created successfully''],
              pem_files = Some [(''ca_chain'', two_cert_chain), (''bundle'', ''B''), (''key'', ''K'')],
              passwords = Some [(''truststore'', ''tp''), (''keystore'', ''kp'')]\<rparr>
   \<and> steps_ok env_all_ok ''/tmp/w'' two_cert_chain ''client'' ''tp'' ''kp''
        (snd (generate_stores env_all_ok two_cert_chain ''B'' ''K'' ''client'' ''tp'' ''kp''))
   \<and> artifacts_read env_all_ok ''/tmp/w''"
proof -
  have a: "mkdtemp env_all_ok = Inr ''/tmp/w''"
    by (simp add: env_all_ok_def)
  have b: "fst (generate_stores env_all_ok two_cert_chain ''B'' ''K'' ''client'' ''tp'' ''kp'')
       = Inr \<lparr>success = True,
              files = [(''truststore.jks'', ''DATA''), (''keystore.jks'', ''DATA''),
                       (''keystore.p12'', ''DATA'')],
              errors = [],
              info = [''Truststore created successfully with 2 CA certificates'',
                      ''P12 keystore created successfully'',
                      ''JKS keystore created successfully''],
              pem_files = Some [(''ca_chain'', two_cert_chain), (''bundle'', ''B''), (''key'', ''K'')],
              passwords = Some [(''truststore'', ''tp''), (''keystore'', ''kp'')]\<rparr>"
    by code_simp
  from success_iff_steps_and_artifacts[OF a b] a b show ?thesis by simp
qed


section \<open>Trust-store population\<close>

text \<open>
  The events of step 1 when every import succeeds: for each certificate, in source
  order, the certificate is written to its own file and the import tool is run on
  that file under the alias of its position.
\<close>

fun import_events :: "string \<Rightarrow> string \<Rightarrow> string \<Rightarrow> nat \<Rightarrow> string list \<Rightarrow> event list" where
  "import_events work_dir alias tpw i [] = []"
| "import_events work_dir alias tpw i (cert_pem # rest) =
     Wrote (ca_temp_path work_dir i) cert_pem
     # Ran (cmd_truststore work_dir alias tpw i)
     # import_events work_dir alias tpw (Suc i) rest"


definition inputs_written :: "env \<Rightarrow> string \<Rightarrow> string \<Rightarrow> string \<Rightarrow> string \<Rightarrow> bool" where
  "inputs_written e work_dir ca_chain bundle key =
     (write_file e (path_join work_dir ''CA_chain'') ca_chain = None
      \<and> write_file e (path_join work_dir ''bundle'') bundle = None
      \<and> write_file e (path_join work_dir ''key'') key = None)"











lemma length_import_events: "length (import_events wd alias tpw i cs) = 2 * length cs"
  by (induction cs arbitrary: i) auto








section \<open>The generation endpoint of main.py\<close>

text \<open>
  \<^verbatim>\<open>generate_stores\<close> of main.py has no \<^verbatim>\<open>except\<close> clause: it ends with the entries of
  the ZIP archive, with the \<^verbatim>\<open>HTTPException\<close> it raises, or with any other exception.
  It imports only the first certificate of the chain, under the alias
  \<^verbatim>\<open><alias>-ca\<close>.
\<close>

datatype failure = HTTPException nat string | Unhandled exn

text \<open>Text whose lines each end in a newline, as in the triple-quoted f-strings.\<close>

definition text_lines :: "string list \<Rightarrow> string" where
  "text_lines ls = concat (map (\<lambda>l. l @ [nl]) ls)"

definition main_properties_content :: "string \<Rightarrow> string \<Rightarrow> string" where
  "main_properties_content password bootstrap =
     text_lines
       [''# Kafka SSL Configuration'',
        ''# Generated by mTLS Configurator'',
        [],
        ''security.protocol=SSL'',
        [],
        ''ssl.truststore.location=/path/to/truststore.jks'',
        ''ssl.truststore.password='' @ password,
        [],
        ''ssl.keystore.location=/path/to/keystore.p12'',
        ''ssl.keystore.password='' @ password,
        ''ssl.keystore.type=PKCS12'',
        ''ssl.key.password='' @ password,
        [],
        ''ssl.endpoint.identification.algorithm='',
        [],
        ''bootstrap.servers='' @ bootstrap]"

definition main_cmd_truststore :: "string \<Rightarrow> string \<Rightarrow> string \<Rightarrow> proc_call" where
  "main_cmd_truststore work_dir alias password =
     run_cmd [''keytool'', ''-import'', ''-file'', path_join work_dir ''CA_root.pem'',
              ''-alias'', alias @ ''-ca'',
              ''-keystore'', path_join work_dir ''truststore.jks'',
              ''-storepass'', password,
              ''-noprompt'']"

definition main_cmd_p12 :: "string \<Rightarrow> string \<Rightarrow> string \<Rightarrow> proc_call" where
  "main_cmd_p12 work_dir alias password =
     run_cmd [''openssl'', ''pkcs12'', ''-export'',
              ''-in'', path_join work_dir ''cert.pem'',
              ''-inkey'', path_join work_dir ''key.pem'',
              ''-certfile'', path_join work_dir ''bundle.pem'',
              ''-name'', alias,
              ''-out'', path_join work_dir ''keystore.p12'',
              ''-passout'', ''pass:'' @ password]"

text \<open>Writing a list of files in order, up to the first write that raises.\<close>

fun write_all :: "env \<Rightarrow> (string \<times> string) list \<Rightarrow> exn option \<times> event list" where
  "write_all e [] = (None, [])"
| "write_all e ((path, content) # rest) =
     (case write_file e path content of
        Some ex \<Rightarrow> (Some ex, [Wrote path content])
      | None \<Rightarrow> (case write_all e rest of (res, evs) \<Rightarrow> (res, Wrote path content # evs)))"

text \<open>Writing files runs no external program.\<close>

lemma invoked_write_all: "invoked (snd (write_all e xs)) = []"
  by (induction xs) (auto split: option.splits prod.splits)

text \<open>The archive: two files read from the work directory, two written from strings.\<close>

definition main_zip ::
  "env \<Rightarrow> string \<Rightarrow> string \<Rightarrow> string \<Rightarrow> (failure + (string \<times> string) list) \<times> event list"
where
  "main_zip e work_dir properties_content root_cert =
     (case read_file e (path_join work_dir ''truststore.jks'') of
        Inl ex \<Rightarrow> (Inl (Unhandled ex), [ReadBack (path_join work_dir ''truststore.jks'')])
      | Inr ts \<Rightarrow>
          (case read_file e (path_join work_dir ''keystore.p12'') of
             Inl ex \<Rightarrow>
               (Inl (Unhandled ex),
                [ReadBack (path_join work_dir ''truststore.jks''),
                 ReadBack (path_join work_dir ''keystore.p12'')])
           | Inr ks \<Rightarrow>
               (Inr [(''truststore.jks'', ts), (''keystore.p12'', ks),
                     (''client-ssl.properties'', properties_content),
                     (''CA_root.pem'', root_cert)],
                [ReadBack (path_join work_dir ''truststore.jks''),
                 ReadBack (path_join work_dir ''keystore.p12'')])))"

text \<open>Steps 1 and 2 and the archive, once the four files are written.\<close>

definition main_steps ::
  "env \<Rightarrow> string \<Rightarrow> string \<Rightarrow> string \<Rightarrow> string \<Rightarrow> string
   \<Rightarrow> (failure + (string \<times> string) list) \<times> event list"
where
  "main_steps e work_dir root_cert alias password bootstrap =
     (case subprocess_run e (main_cmd_truststore work_dir alias password) of
        Inl ex \<Rightarrow> (Inl (Unhandled ex), [Ran (main_cmd_truststore work_dir alias password)])
      | Inr result \<Rightarrow>
          if returncode result \<noteq> 0 then
            (Inl (HTTPException 500 (''Truststore creation failed: '' @ stderr result)),
             [Ran (main_cmd_truststore work_dir alias password)])
          else
            (case subprocess_run e (main_cmd_p12 work_dir alias password) of
               Inl ex \<Rightarrow>
                 (Inl (Unhandled ex),
                  [Ran (main_cmd_truststore work_dir alias password),
                   Ran (main_cmd_p12 work_dir alias password)])
             | Inr result2 \<Rightarrow>
                 if returncode result2 \<noteq> 0 then
                   (Inl (HTTPException 500 (''Keystore creation failed: '' @ stderr result2)),
                    [Ran (main_cmd_truststore work_dir alias password),
                     Ran (main_cmd_p12 work_dir alias password)])
                 else
                   (case main_zip e work_dir (main_properties_content password bootstrap)
                           root_cert of
                      (res, evs) \<Rightarrow>
                        (res,
                         Ran (main_cmd_truststore work_dir alias password)
                         # Ran (main_cmd_p12 work_dir alias password) # evs))))"

text \<open>The body of the \<^verbatim>\<open>try\<close> block after the four uploads are decoded.\<close>

definition main_generate_body ::
  "env \<Rightarrow> string \<Rightarrow> string \<Rightarrow> string \<Rightarrow> string \<Rightarrow> string \<Rightarrow> string \<Rightarrow> string \<Rightarrow> string
   \<Rightarrow> (failure + (string \<times> string) list) \<times> event list"
where
  "main_generate_body e work_dir ca_chain_content cert_content key_content bundle_content
       alias password bootstrap =
     (case extract_root_cert ca_chain_content of
        None \<Rightarrow>
          (Inl (HTTPException 400 ''Could not extract root certificate from CA chain''), [])
      | Some root_cert \<Rightarrow>
          if root_cert = [] then
            (Inl (HTTPException 400 ''Could not extract root certificate from CA chain''), [])
          else
            (case write_all e
                    [(path_join work_dir ''CA_root.pem'', root_cert),
                     (path_join work_dir ''cert.pem'', cert_content),
                     (path_join work_dir ''key.pem'', key_content),
                     (path_join work_dir ''bundle.pem'', bundle_content)] of
               (Some ex, evs) \<Rightarrow> (Inl (Unhandled ex), evs)
             | (None, evs) \<Rightarrow>
                 (case main_steps e work_dir root_cert alias password bootstrap of
                    (res, evs') \<Rightarrow> (res, evs @ evs'))))"

text \<open>
  The endpoint: \<^verbatim>\<open>mkdtemp\<close>, then the four uploads are decoded in the order of the
  source, then the body; the work directory is removed on every path.
\<close>

definition main_generate_stores ::
  "env \<Rightarrow> string \<Rightarrow> string \<Rightarrow> string \<Rightarrow> string \<Rightarrow> string \<Rightarrow> string \<Rightarrow> string
   \<Rightarrow> (failure + (string \<times> string) list) \<times> event list"
where
  "main_generate_stores e ca_chain cert key bundle alias password bootstrap =
     (case mkdtemp e of
        Inl ex \<Rightarrow> (Inl (Unhandled ex), [])
      | Inr work_dir \<Rightarrow>
          (case utf8_decode e ca_chain of
             Inl ex \<Rightarrow> (Inl (Unhandled ex), [Removed work_dir])
           | Inr ca_chain_content \<Rightarrow>
          (case utf8_decode e cert of
             Inl ex \<Rightarrow> (Inl (Unhandled ex), [Removed work_dir])
           | Inr cert_content \<Rightarrow>
          (case utf8_decode e key of
             Inl ex \<Rightarrow> (Inl (Unhandled ex), [Removed work_dir])
           | Inr key_content \<Rightarrow>
          (case utf8_decode e bundle of
             Inl ex \<Rightarrow> (Inl (Unhandled ex), [Removed work_dir])
           | Inr bundle_content \<Rightarrow>
               (case main_generate_body e work_dir ca_chain_content cert_content key_content
                       bundle_content alias password bootstrap of
                  (res, evs) \<Rightarrow> (res, evs @ [Removed work_dir])))))))"

section \<open>Trust-store population in the two implementations\<close>




















section \<open>A chain without certificates\<close>

lemma extract_root_cert_None: "extract_root_cert ca = None \<longleftrightarrow> extract_all ca = []"
  by (simp add: extract_root_cert_def split: list.splits)

text \<open>
  C2. When the CA chain holds no certificate block, no external program is invoked,
  a result that is returned has \<^verbatim>\<open>success = False\<close> and no artifact, and, when the
  work directory is created and the inputs are written, the run ends right after
  those writes with the single error "Could not extract certificates from CA chain";
  the endpoint of main.py raises its 400 error before writing any file.
\<close>

theorem no_certificates_fails_immediately:
  assumes "extract_all ca = []"
  shows "invoked (snd (generate_stores e ca bundle key alias tpw kpw)) = []
         \<and> (\<forall>r. fst (generate_stores e ca bundle key alias tpw kpw) = Inr r
                \<longrightarrow> \<not> success r \<and> files r = [])
         \<and> (\<forall>wd. mkdtemp e = Inr wd \<and> inputs_written e wd ca bundle key \<longrightarrow>
               generate_stores e ca bundle key alias tpw kpw
               = (Inr (results_init\<lparr>errors := [''Could not extract certificates from CA chain'']\<rparr>),
                  input_writes wd ca bundle key @ [Removed wd]))
         \<and> (\<forall>wd cert_raw key_raw bundle_raw c k b.
               mkdtemp e = Inr wd \<and> utf8_decode e ca_raw = Inr ca
               \<and> utf8_decode e cert_raw = Inr c \<and> utf8_decode e key_raw = Inr k
               \<and> utf8_decode e bundle_raw = Inr b \<longrightarrow>
               main_generate_stores e ca_raw cert_raw key_raw bundle_raw alias password bootstrap
               = (Inl (HTTPException 400 ''Could not extract root certificate from CA chain''),
                  [Removed wd]))"
proof (intro conjI allI impI)
  have bt: "build_truststore e wd ca bundle key alias tpw kpw r0
        = (Returned, r0\<lparr>errors := errors r0 @ [''Could not extract certificates from CA chain'']\<rparr>, [])"
    for wd r0
    using assms by (simp add: build_truststore_def)
  have gb: "invoked (snd (snd (generate_body e wd ca bundle key alias tpw kpw))) = []
            \<and> \<not> success (fst (snd (generate_body e wd ca bundle key alias tpw kpw)))
            \<and> files (fst (snd (generate_body e wd ca bundle key alias tpw kpw))) = []" for wd
    by (simp add: generate_body_def bt input_writes_def results_init_def split: option.splits)
  show "invoked (snd (generate_stores e ca bundle key alias tpw kpw)) = []"
  proof (cases "mkdtemp e")
    case (Inl ex)
    then show ?thesis by (simp add: generate_stores_def)
  next
    case (Inr wd)
    obtain fl r evs where g: "generate_body e wd ca bundle key alias tpw kpw = (fl, r, evs)"
      by (cases "generate_body e wd ca bundle key alias tpw kpw") auto
    with gb[of wd] Inr show ?thesis
      by (cases fl) (simp_all add: generate_stores_def invoked_append)
  qed
  show "\<not> success r" "files r = []"
    if "fst (generate_stores e ca bundle key alias tpw kpw) = Inr r" for r
  proof -
    from that obtain wd where Inr: "mkdtemp e = Inr wd"
      by (cases "mkdtemp e") (auto simp: generate_stores_def)
    obtain fl r' evs where g: "generate_body e wd ca bundle key alias tpw kpw = (fl, r', evs)"
      by (cases "generate_body e wd ca bundle key alias tpw kpw") auto
    with gb[of wd] Inr that show "\<not> success r" "files r = []"
      by (cases fl; auto simp: generate_stores_def)+
  qed
  show "generate_stores e ca bundle key alias tpw kpw
               = (Inr (results_init\<lparr>errors := [''Could not extract certificates from CA chain'']\<rparr>),
                  input_writes wd ca bundle key @ [Removed wd])"
    if "mkdtemp e = Inr wd \<and> inputs_written e wd ca bundle key" for wd
    using that
    by (simp add: generate_stores_def generate_body_def bt inputs_written_def results_init_def)
  show "main_generate_stores e ca_raw cert_raw key_raw bundle_raw alias password bootstrap
               = (Inl (HTTPException 400 ''Could not extract root certificate from CA chain''),
                  [Removed wd])"
    if "mkdtemp e = Inr wd \<and> utf8_decode e ca_raw = Inr ca
               \<and> utf8_decode e cert_raw = Inr c \<and> utf8_decode e key_raw = Inr k
               \<and> utf8_decode e bundle_raw = Inr b" for wd cert_raw key_raw bundle_raw c k b
    using that assms
    by (simp add: main_generate_stores_def main_generate_body_def extract_root_cert_def)
qed


theorem no_certificates_fails_immediately_witness:
  "extract_all ''no certificate here'' = []
   \<and> generate_stores env_all_ok ''no certificate here'' ''B'' ''K'' ''client'' ''tp'' ''kp''
       = (Inr (results_init\<lparr>errors := [''Could not extract certificates from CA chain'']\<rparr>),
          input_writes ''/tmp/w'' ''no certificate here'' ''B'' ''K'' @ [Removed ''/tmp/w''])
   \<and> invoked (snd (generate_stores env_all_ok ''no certificate here'' ''B'' ''K''
                     ''client'' ''tp'' ''kp'')) = []
   \<and> main_generate_stores env_all_ok ''no certificate here'' ''C'' ''K'' ''B''
         ''client'' ''pw'' ''broker:9093''
       = (Inl (HTTPException 400 ''Could not extract root certificate from CA chain''),
          [Removed ''/tmp/w''])"
proof -
  have a: "extract_all ''no certificate here'' = []"
    by code_simp
  have b: "mkdtemp env_all_ok = Inr ''/tmp/w''
           \<and> inputs_written env_all_ok ''/tmp/w'' ''no certificate here'' ''B'' ''K''"
    by (simp add: env_all_ok_def inputs_written_def)
  have c: "mkdtemp env_all_ok = Inr ''/tmp/w''
           \<and> utf8_decode env_all_ok ''no certificate here'' = Inr ''no certificate here''
           \<and> utf8_decode env_all_ok ''C'' = Inr ''C''
           \<and> utf8_decode env_all_ok ''K'' = Inr ''K''
           \<and> utf8_decode env_all_ok ''B'' = Inr ''B''"
    by (simp add: env_all_ok_def)
  note t = no_certificates_fails_immediately[OF a,
      of env_all_ok "''B''" "''K''" "''client''" "''tp''" "''kp''" "''no certificate here''"
         "''pw''" "''broker:9093''"]
  from t have t1: "invoked (snd (generate_stores env_all_ok ''no certificate here'' ''B'' ''K''
                     ''client'' ''tp'' ''kp'')) = []"
    by (rule conjunct1)
  from t[THEN conjunct2, THEN conjunct2, THEN conjunct1, rule_format, OF b]
  have t2: "generate_stores env_all_ok ''no certificate here'' ''B'' ''K'' ''client'' ''tp'' ''kp''
       = (Inr (results_init\<lparr>errors := [''Could not extract certificates from CA chain'']\<rparr>),
          input_writes ''/tmp/w'' ''no certificate here'' ''B'' ''K'' @ [Removed ''/tmp/w''])" .
  from t[THEN conjunct2, THEN conjunct2, THEN conjunct2, rule_format, OF c]
  have t3: "main_generate_stores env_all_ok ''no certificate here'' ''C'' ''K'' ''B''
         ''client'' ''pw'' ''broker:9093''
       = (Inl (HTTPException 400 ''Could not extract root certificate from CA chain''),
          [Removed ''/tmp/w''])" .
  from a t1 t2 t3 show ?thesis by (simp only: simp_thms)
qed

section \<open>Certificate metadata\<close>

text \<open>
  Decoding is done by the \<^verbatim>\<open>cryptography\<close> library: the decoder is a parameter, and a
  decoded certificate is what the sources read from it, the two distinguished names
  as rendered by \<^verbatim>\<open>rfc4514_string()\<close> and the validity bounds as rendered by
  \<^verbatim>\<open>isoformat()\<close>. The \<^verbatim>\<open>_utc\<close> attributes are absent in old versions of the library.
\<close>

record certificate =
  subject_rfc4514 :: string
  issuer_rfc4514 :: string
  not_valid_before_utc :: "string option"
  not_valid_after_utc :: "string option"
  not_valid_before :: string
  not_valid_after :: string

text \<open>
  The \<^verbatim>\<open>AttributeError\<close> of a missing attribute; its text is never observed, since main.py
  drops the exception and app.py handles it.
\<close>

definition attribute_error :: "string \<Rightarrow> exn" where
  "attribute_error name = PyError (''Certificate object has no attribute '' @ name)"

subsection \<open>main.py\<close>

record CertificateInfo =
  index :: nat
  subject :: string
  issuer :: string
  not_before :: string
  not_after :: string
  is_root :: bool

definition get_cert_info ::
  "(string \<Rightarrow> exn + certificate) \<Rightarrow> string \<Rightarrow> nat \<Rightarrow> exn + CertificateInfo"
where
  "get_cert_info load_pem_x509_certificate cert_pem idx =
     (case load_pem_x509_certificate cert_pem of
        Inl ex \<Rightarrow> Inl ex
      | Inr cert \<Rightarrow>
          let subj = subject_rfc4514 cert; iss = issuer_rfc4514 cert in
          (case not_valid_before_utc cert of
             None \<Rightarrow> Inl (attribute_error ''not_valid_before_utc'')
           | Some nb \<Rightarrow>
               (case not_valid_after_utc cert of
                  None \<Rightarrow> Inl (attribute_error ''not_valid_after_utc'')
                | Some na \<Rightarrow>
                    Inr \<lparr>index = idx, subject = subj, issuer = iss,
                         not_before = nb, not_after = na,
                         is_root = (subj = iss)\<rparr>)))"

text \<open>
  The loop of \<^verbatim>\<open>analyze_certificate\<close> over \<^verbatim>\<open>enumerate(certs)\<close>: a certificate whose
  decoding raises is skipped.
\<close>

fun collect_info ::
  "(string \<Rightarrow> exn + certificate) \<Rightarrow> nat \<Rightarrow> string list \<Rightarrow> CertificateInfo list"
where
  "collect_info load_pem i [] = []"
| "collect_info load_pem i (cert_pem # rest) =
     (case get_cert_info load_pem cert_pem i of
        Inl ex \<Rightarrow> collect_info load_pem (Suc i) rest
      | Inr ci \<Rightarrow> ci # collect_info load_pem (Suc i) rest)"

record AnalyzeResponse =
  analyze_success :: bool
  certificates :: "CertificateInfo list"
  analyze_error :: "string option"

definition analyze_certificate ::
  "(string \<Rightarrow> exn + certificate) \<Rightarrow> env \<Rightarrow> string \<Rightarrow> AnalyzeResponse"
where
  "analyze_certificate load_pem e cert =
     (case utf8_decode e cert of
        Inl ex \<Rightarrow>
          \<lparr>analyze_success = False, certificates = [], analyze_error = Some (str_exn ex)\<rparr>
      | Inr content \<Rightarrow>
          \<lparr>analyze_success = True,
           certificates = collect_info load_pem 0 (parse_cert_chain content),
           analyze_error = None\<rparr>)"

subsection \<open>app.py\<close>

text \<open>
  In app.py the information about a certificate is a dictionary: \<^verbatim>\<open>get_cert_info\<close>
  returns the four rendered fields, or the single key \<^verbatim>\<open>error\<close>; \<^verbatim>\<open>analyze_cert\<close>
  then sets \<^verbatim>\<open>index\<close> and \<^verbatim>\<open>is_root\<close>, the latter from the position alone. The
  values of the JSON bodies of app.py are strings, numbers, truth values and lists
  of strings.
\<close>

datatype jval = JStr string | JInt int | JBool bool | JList "string list"

definition app_get_cert_info ::
  "(string \<Rightarrow> exn + certificate) \<Rightarrow> string \<Rightarrow> (string \<times> jval) list"
where
  "app_get_cert_info load_pem cert_pem =
     (case load_pem cert_pem of
        Inl ex \<Rightarrow> [(''error'', JStr (str_exn ex))]
      | Inr cert \<Rightarrow>
          let (nb, na) =
                (case (not_valid_before_utc cert, not_valid_after_utc cert) of
                   (Some b, Some a) \<Rightarrow> (b, a)
                 | _ \<Rightarrow> (not_valid_before cert, not_valid_after cert))
          in [(''subject'', JStr (subject_rfc4514 cert)),
              (''issuer'', JStr (issuer_rfc4514 cert)),
              (''not_before'', JStr nb),
              (''not_after'', JStr na)])"

fun app_collect_info ::
  "(string \<Rightarrow> exn + certificate) \<Rightarrow> nat \<Rightarrow> string list \<Rightarrow> (string \<times> jval) list list"
where
  "app_collect_info load_pem i [] = []"
| "app_collect_info load_pem i (cert_pem # rest) =
     AList.update ''is_root'' (JBool (i = 0))
       (AList.update ''index'' (JInt (int i)) (app_get_cert_info load_pem cert_pem))
     # app_collect_info load_pem (Suc i) rest"

datatype analyze_reply =
    Certificates "(string \<times> jval) list list"
  | AnalyzeFailed nat string

definition analyze_cert ::
  "(string \<Rightarrow> exn + certificate) \<Rightarrow> env \<Rightarrow> string option \<Rightarrow> analyze_reply"
where
  "analyze_cert load_pem e cert_file =
     (case cert_file of
        None \<Rightarrow> AnalyzeFailed 400 ''No certificate provided''
      | Some raw \<Rightarrow>
          (case utf8_decode e raw of
             Inl ex \<Rightarrow> AnalyzeFailed 500 (str_exn ex)
           | Inr cert_content \<Rightarrow>
               Certificates (app_collect_info load_pem 0 (parse_cert_chain cert_content))))"

subsection \<open>The root flag\<close>

text \<open>A certificate is self-signed when its two rendered names are the same string.\<close>

definition self_signed :: "certificate \<Rightarrow> bool" where
  "self_signed cert = (subject_rfc4514 cert = issuer_rfc4514 cert)"

lemma get_cert_info_fields:
  assumes "get_cert_info load_pem cert_pem i = Inr ci"
  shows "\<exists>cert. load_pem cert_pem = Inr cert \<and> index ci = i
           \<and> subject ci = subject_rfc4514 cert \<and> issuer ci = issuer_rfc4514 cert
           \<and> is_root ci = (subject ci = issuer ci)"
  using assms
  by (auto simp: get_cert_info_def Let_def split: sum.splits option.splits)

lemma collect_info_members:
  "ci \<in> set (collect_info load_pem i cs) \<Longrightarrow>
   \<exists>j < length cs. get_cert_info load_pem (cs ! j) (i + j) = Inr ci"
proof (induction cs arbitrary: i)
  case Nil
  then show ?case by simp
next
  case (Cons c cs)
  show ?case
  proof (cases "get_cert_info load_pem c i = Inr ci")
    case True
    then have "get_cert_info load_pem ((c # cs) ! 0) (i + 0) = Inr ci" by simp
    then show ?thesis by blast
  next
    case False
    with Cons.prems have "ci \<in> set (collect_info load_pem (Suc i) cs)"
      by (auto split: sum.splits)
    from Cons.IH[OF this] obtain j where "j < length cs"
      "get_cert_info load_pem (cs ! j) (Suc i + j) = Inr ci" by blast
    then have "Suc j < length (c # cs)"
      "get_cert_info load_pem ((c # cs) ! Suc j) (i + Suc j) = Inr ci" by simp_all
    then show ?thesis by blast
  qed
qed

text \<open>
  The entry that \<^verbatim>\<open>analyze_cert\<close> of app.py builds for the certificate at position \<open>j\<close>
  of a chain, and the entries of a reply.
\<close>

definition app_entry ::
  "(string \<Rightarrow> exn + certificate) \<Rightarrow> string list \<Rightarrow> nat \<Rightarrow> (string \<times> jval) list"
where
  "app_entry load_pem cs j =
     AList.update ''is_root'' (JBool (j = 0))
       (AList.update ''index'' (JInt (int j)) (app_get_cert_info load_pem (cs ! j)))"

definition reply_entries :: "analyze_reply \<Rightarrow> (string \<times> jval) list list" where
  "reply_entries r = (case r of Certificates entries \<Rightarrow> entries | AnalyzeFailed code msg \<Rightarrow> [])"

definition flagged_root :: "(string \<times> jval) list \<Rightarrow> bool" where
  "flagged_root entry = (map_of entry ''is_root'' = Some (JBool True))"

lemma app_collect_info_exact:
  "app_collect_info load_pem i cs
   = map (\<lambda>j. AList.update ''is_root'' (JBool (i + j = 0))
                (AList.update ''index'' (JInt (int (i + j))) (app_get_cert_info load_pem (cs ! j))))
       [0..<length cs]"
proof (induction cs arbitrary: i)
  case Nil
  then show ?case by simp
next
  case (Cons c cs)
  have up: "[0..<length (c # cs)] = 0 # map Suc [0..<length cs]"
    by (simp add: upt_conv_Cons map_Suc_upt del: upt_Suc)
  show ?case
    unfolding up by (simp add: Cons.IH comp_def ac_simps del: upt_Suc)
qed

lemma app_entry_flag: "map_of (app_entry load_pem cs j) ''is_root'' = Some (JBool (j = 0))"
  by (simp add: app_entry_def update_conv')

lemma app_entry_index: "map_of (app_entry load_pem cs j) ''index'' = Some (JInt (int j))"
  by (simp add: app_entry_def update_conv')

lemma filter_first_position:
  "0 < n \<Longrightarrow> filter flagged_root (map (app_entry load_pem cs) [0..<n]) = [app_entry load_pem cs 0]"
proof -
  assume n: "0 < n"
  have fl: "flagged_root (app_entry load_pem cs j) \<longleftrightarrow> j = 0" for j
    by (simp add: flagged_root_def app_entry_flag)
  from n have up: "[0..<n] = 0 # [Suc 0..<n]"
    by (simp add: upt_conv_Cons)
  have "filter flagged_root (map (app_entry load_pem cs) [Suc 0..<n]) = []"
    by (simp add: filter_empty_conv fl)
  then show ?thesis
    unfolding up by (simp add: fl)
qed

lemma analyze_cert_entries:
  assumes "utf8_decode e raw = Inr content"
  shows "analyze_cert load_pem e (Some raw)
         = Certificates (map (app_entry load_pem (parse_cert_chain content))
                           [0..<length (parse_cert_chain content)])"
  using assms by (simp add: analyze_cert_def app_collect_info_exact app_entry_def)

text \<open>
  C7, as the two implementations have it. \<^verbatim>\<open>get_cert_info\<close> of main.py sets the root
  flag exactly when the rendered subject equals the rendered issuer. \<^verbatim>\<open>analyze_cert\<close>
  of app.py returns one entry per certificate of the chain, in order, and sets the
  root flag of the entry at position \<open>j\<close> exactly when \<open>j\<close> is 0, whatever the
  subject and the issuer are. On a chain of at least two certificates whose first
  certificate is self-signed and whose later ones, where they decode, are not, both
  flag index 0 and no other index.
\<close>

theorem root_flag_by_implementation:
  "(\<forall>ci. get_cert_info load_pem cert_pem i = Inr ci \<longrightarrow>
       (\<exists>cert. load_pem cert_pem = Inr cert \<and> is_root ci = self_signed cert)
       \<and> is_root ci = (subject ci = issuer ci))
   \<and> (\<forall>content.
         utf8_decode e raw = Inr content \<longrightarrow>
           analyze_cert load_pem e (Some raw)
           = Certificates (map (app_entry load_pem (parse_cert_chain content))
                             [0..<length (parse_cert_chain content)])
           \<and> (\<forall>j. map_of (app_entry load_pem (parse_cert_chain content) j) ''is_root''
                     = Some (JBool (j = 0))
                   \<and> map_of (app_entry load_pem (parse_cert_chain content) j) ''index''
                     = Some (JInt (int j))))
   \<and> (\<forall>content c0.
         utf8_decode e raw = Inr content
         \<and> 2 \<le> length (parse_cert_chain content)
         \<and> load_pem (parse_cert_chain content ! 0) = Inr c0 \<and> self_signed c0
         \<and> not_valid_before_utc c0 \<noteq> None \<and> not_valid_after_utc c0 \<noteq> None
         \<and> list_all (\<lambda>j. case load_pem (parse_cert_chain content ! j) of
                            Inl ex \<Rightarrow> True | Inr c \<Rightarrow> \<not> self_signed c)
              [1..<length (parse_cert_chain content)]
         \<longrightarrow> (\<forall>ci \<in> set (certificates (analyze_certificate load_pem e raw)).
                 is_root ci \<longleftrightarrow> index ci = 0)
             \<and> map index (filter is_root (certificates (analyze_certificate load_pem e raw))) = [0]
             \<and> filter flagged_root (reply_entries (analyze_cert load_pem e (Some raw)))
                 = [app_entry load_pem (parse_cert_chain content) 0])"
proof (intro conjI allI impI)
  fix ci
  assume g: "get_cert_info load_pem cert_pem i = Inr ci"
  from get_cert_info_fields[OF g]
  show "\<exists>cert. load_pem cert_pem = Inr cert \<and> is_root ci = self_signed cert"
    by (auto simp: self_signed_def)
  from get_cert_info_fields[OF g] show "is_root ci = (subject ci = issuer ci)" by blast
next
  fix content
  assume d: "utf8_decode e raw = Inr content"
  then show "analyze_cert load_pem e (Some raw)
           = Certificates (map (app_entry load_pem (parse_cert_chain content))
                             [0..<length (parse_cert_chain content)])"
    by (rule analyze_cert_entries)
  fix j
  show "map_of (app_entry load_pem (parse_cert_chain content) j) ''is_root'' = Some (JBool (j = 0))"
    by (rule app_entry_flag)
  show "map_of (app_entry load_pem (parse_cert_chain content) j) ''index'' = Some (JInt (int j))"
    by (rule app_entry_index)
next
  fix content c0
  assume h: "utf8_decode e raw = Inr content
         \<and> 2 \<le> length (parse_cert_chain content)
         \<and> load_pem (parse_cert_chain content ! 0) = Inr c0 \<and> self_signed c0
         \<and> not_valid_before_utc c0 \<noteq> None \<and> not_valid_after_utc c0 \<noteq> None
         \<and> list_all (\<lambda>j. case load_pem (parse_cert_chain content ! j) of
                            Inl ex \<Rightarrow> True | Inr c \<Rightarrow> \<not> self_signed c)
              [1..<length (parse_cert_chain content)]"
  let ?cs = "parse_cert_chain content"
  from h have an: "certificates (analyze_certificate load_pem e raw) = collect_info load_pem 0 ?cs"
    by (simp add: analyze_certificate_def)
  have later: "\<not> self_signed c" if "0 < j" "j < length ?cs" "load_pem (?cs ! j) = Inr c" for j c
    using h that by (auto simp: list_all_iff split: sum.splits)
  have flag: "is_root ci \<longleftrightarrow> index ci = 0" if "ci \<in> set (collect_info load_pem 0 ?cs)" for ci
  proof -
    from collect_info_members[OF that] obtain j where j: "j < length ?cs"
      "get_cert_info load_pem (?cs ! j) (0 + j) = Inr ci" by blast
    from get_cert_info_fields[OF j(2)] obtain cert where c: "load_pem (?cs ! j) = Inr cert"
      "index ci = j" "is_root ci = self_signed cert"
      by (auto simp: self_signed_def)
    show ?thesis
    proof (cases "j = 0")
      case True
      with c h show ?thesis by simp
    next
      case False
      with later[of j cert] j c show ?thesis by simp
    qed
  qed
  with an show "\<forall>ci \<in> set (certificates (analyze_certificate load_pem e raw)).
                 is_root ci \<longleftrightarrow> index ci = 0" by simp
  from h obtain c rest where cs: "?cs = c # rest"
    by (cases ?cs) auto
  from h cs obtain nb na where u: "not_valid_before_utc c0 = Some nb" "not_valid_after_utc c0 = Some na"
    by auto
  from h cs u have g0: "get_cert_info load_pem c 0
      = Inr \<lparr>index = 0, subject = subject_rfc4514 c0, issuer = issuer_rfc4514 c0,
             not_before = nb, not_after = na, is_root = True\<rparr>"
    by (simp add: get_cert_info_def self_signed_def Let_def)
  have tail: "filter is_root (collect_info load_pem (Suc 0) rest) = []"
  proof -
    have "\<not> is_root ci" if m: "ci \<in> set (collect_info load_pem (Suc 0) rest)" for ci
    proof -
      from m g0 cs have "ci \<in> set (collect_info load_pem 0 ?cs)" by simp
      from flag[OF this] have f: "is_root ci \<longleftrightarrow> index ci = 0" .
      from collect_info_members[OF m] obtain j where
        "get_cert_info load_pem (rest ! j) (Suc 0 + j) = Inr ci" by blast
      from get_cert_info_fields[OF this] have "index ci = Suc 0 + j" by blast
      with f show ?thesis by simp
    qed
    then show ?thesis by (simp add: filter_empty_conv)
  qed
  from an cs g0 tail
  show "map index (filter is_root (certificates (analyze_certificate load_pem e raw))) = [0]"
    by simp
  from h have d: "utf8_decode e raw = Inr content" by simp
  from h have "2 \<le> length ?cs" by simp
  then have n: "0 < length ?cs" by linarith
  show "filter flagged_root (reply_entries (analyze_cert load_pem e (Some raw)))
                 = [app_entry load_pem ?cs 0]"
    by (simp add: analyze_cert_entries[OF d] reply_entries_def filter_first_position[OF n])
qed

subsection \<open>A decoder for the two-certificate chain\<close>

definition cert_a :: string where
  "cert_a = ''-----BEGIN CERTIFICATE-----\<newline>AAAA\<newline>-----END CERTIFICATE-----''"

definition cert_b :: string where
  "cert_b = ''-----BEGIN CERTIFICATE-----\<newline>BBBB\<newline>-----END CERTIFICATE-----''"

definition root_ca :: certificate where
  "root_ca = \<lparr>subject_rfc4514 = ''CN=Root CA'', issuer_rfc4514 = ''CN=Root CA'',
              not_valid_before_utc = Some ''2024-01-01T00:00:00+00:00'',
              not_valid_after_utc = Some ''2034-01-01T00:00:00+00:00'',
              not_valid_before = ''2024-01-01T00:00:00'',
              not_valid_after = ''2034-01-01T00:00:00''\<rparr>"

definition issuing_ca :: certificate where
  "issuing_ca = \<lparr>subject_rfc4514 = ''CN=Issuing CA'', issuer_rfc4514 = ''CN=Root CA'',
                 not_valid_before_utc = Some ''2024-02-01T00:00:00+00:00'',
                 not_valid_after_utc = Some ''2029-02-01T00:00:00+00:00'',
                 not_valid_before = ''2024-02-01T00:00:00'',
                 not_valid_after = ''2029-02-01T00:00:00''\<rparr>"

definition demo_loader :: "string \<Rightarrow> exn + certificate" where
  "demo_loader cert_pem =
     (if cert_pem = cert_a then Inr root_ca
      else if cert_pem = cert_b then Inr issuing_ca
      else Inl (PyError ''Unable to load PEM file''))"

text \<open>The same two certificates with the issuing CA first and the root second.\<close>

definition reversed_chain :: string where
  "reversed_chain = ''-----BEGIN CERTIFICATE-----\<newline>BBBB\<newline>-----END CERTIFICATE-----\<newline>-----BEGIN CERTIFICATE-----\<newline>AAAA\<newline>-----END CERTIFICATE-----\<newline>''"

theorem root_flag_by_implementation_witness:
  "get_cert_info demo_loader cert_a 0
     = Inr \<lparr>index = 0, subject = ''CN=Root CA'', issuer = ''CN=Root CA'',
            not_before = ''2024-01-01T00:00:00+00:00'',
            not_after = ''2034-01-01T00:00:00+00:00'', is_root = True\<rparr>
   \<and> demo_loader cert_a = Inr root_ca \<and> self_signed root_ca
   \<and> utf8_decode env_all_ok two_cert_chain = Inr two_cert_chain
   \<and> parse_cert_chain two_cert_chain = [cert_a, cert_b]
   \<and> analyze_cert demo_loader env_all_ok (Some two_cert_chain)
       = Certificates [app_entry demo_loader [cert_a, cert_b] 0,
                       app_entry demo_loader [cert_a, cert_b] 1]
   \<and> map index (filter is_root
        (certificates (analyze_certificate demo_loader env_all_ok two_cert_chain))) = [0]
   \<and> filter flagged_root (reply_entries (analyze_cert demo_loader env_all_ok (Some two_cert_chain)))
       = [app_entry demo_loader [cert_a, cert_b] 0]"
proof -
  have g: "get_cert_info demo_loader cert_a 0
     = Inr \<lparr>index = 0, subject = ''CN=Root CA'', issuer = ''CN=Root CA'',
            not_before = ''2024-01-01T00:00:00+00:00'',
            not_after = ''2034-01-01T00:00:00+00:00'', is_root = True\<rparr>"
    by (simp add: get_cert_info_def demo_loader_def root_ca_def Let_def)
  have l: "demo_loader cert_a = Inr root_ca"
    by (simp add: demo_loader_def)
  have d: "utf8_decode env_all_ok two_cert_chain = Inr two_cert_chain"
    by (simp add: env_all_ok_def)
  have p: "parse_cert_chain two_cert_chain = [cert_a, cert_b]"
    by code_simp
  have s: "self_signed root_ca" "\<not> self_signed issuing_ca"
    by (simp_all add: self_signed_def root_ca_def issuing_ca_def)
  have lb: "demo_loader cert_b = Inr issuing_ca"
    by (simp add: demo_loader_def cert_a_def cert_b_def)
  have u: "not_valid_before_utc root_ca \<noteq> None" "not_valid_after_utc root_ca \<noteq> None"
    by (simp_all add: root_ca_def)
  have h: "utf8_decode env_all_ok two_cert_chain = Inr two_cert_chain
         \<and> 2 \<le> length (parse_cert_chain two_cert_chain)
         \<and> demo_loader (parse_cert_chain two_cert_chain ! 0) = Inr root_ca \<and> self_signed root_ca
         \<and> not_valid_before_utc root_ca \<noteq> None \<and> not_valid_after_utc root_ca \<noteq> None
         \<and> list_all (\<lambda>j. case demo_loader (parse_cert_chain two_cert_chain ! j) of
                            Inl ex \<Rightarrow> True | Inr c \<Rightarrow> \<not> self_signed c)
              [1..<length (parse_cert_chain two_cert_chain)]"
    using d l lb s u by (simp add: p upt_conv_Cons)
  note t = root_flag_by_implementation[of demo_loader cert_a 0 env_all_ok two_cert_chain]
  from t[THEN conjunct1, rule_format, OF g] have "is_root
     \<lparr>index = 0, subject = ''CN=Root CA'', issuer = ''CN=Root CA'',
       not_before = ''2024-01-01T00:00:00+00:00'',
       not_after = ''2034-01-01T00:00:00+00:00'', is_root = True\<rparr>"
    by simp
  from t[THEN conjunct2, THEN conjunct1, rule_format, OF d, THEN conjunct1]
  have a: "analyze_cert demo_loader env_all_ok (Some two_cert_chain)
       = Certificates [app_entry demo_loader [cert_a, cert_b] 0,
                       app_entry demo_loader [cert_a, cert_b] 1]"
    by (simp add: p upt_conv_Cons)
  note sc = t[THEN conjunct2, THEN conjunct2, rule_format, OF h]
  from sc[THEN conjunct2, THEN conjunct1]
  have r: "map index (filter is_root
        (certificates (analyze_certificate demo_loader env_all_ok two_cert_chain))) = [0]" .
  from sc[THEN conjunct2, THEN conjunct2]
  have f: "filter flagged_root (reply_entries (analyze_cert demo_loader env_all_ok (Some two_cert_chain)))
       = [app_entry demo_loader [cert_a, cert_b] 0]"
    by (simp add: p)
  from g l s(1) d p a r f show ?thesis by (simp only: simp_thms)
qed

text \<open>
  In app.py the flag is not the comparison of subject and issuer: with the issuing CA
  first and the self-signed root second, the issuing CA is flagged as root and the
  root is not.
\<close>

theorem app_flags_first_position:
  "analyze_cert demo_loader env_all_ok (Some reversed_chain)
   = Certificates
       [[(''subject'', JStr ''CN=Issuing CA''), (''issuer'', JStr ''CN=Root CA''),
         (''not_before'', JStr ''2024-02-01T00:00:00+00:00''),
         (''not_after'', JStr ''2029-02-01T00:00:00+00:00''),
         (''index'', JInt 0), (''is_root'', JBool True)],
        [(''subject'', JStr ''CN=Root CA''), (''issuer'', JStr ''CN=Root CA''),
         (''not_before'', JStr ''2024-01-01T00:00:00+00:00''),
         (''not_after'', JStr ''2034-01-01T00:00:00+00:00''),
         (''index'', JInt 1), (''is_root'', JBool False)]]"
  by code_simp

section \<open>The connection probes\<close>

subsection \<open>Shared pieces\<close>

text \<open>
  \<^verbatim>\<open>host, port = bootstrap.split(':') if ':' in bootstrap else (bootstrap, '443')\<close>:
  the unpacking into two names raises \<^verbatim>\<open>ValueError\<close> unless the list has exactly two
  elements. The texts are those of CPython.
\<close>

definition too_many_values :: exn where
  "too_many_values = PyError ''too many values to unpack (expected 2)''"

definition not_enough_values :: "nat \<Rightarrow> exn" where
  "not_enough_values n =
     PyError (''not enough values to unpack (expected 2, got '' @ str_nat n @ '')'')"

definition split_host_port :: "string \<Rightarrow> exn + string \<times> string" where
  "split_host_port bootstrap =
     (if py_in '':'' bootstrap then
        (case split_chr (CHR '':'') bootstrap of
           [] \<Rightarrow> Inl (not_enough_values 0)
         | [a] \<Rightarrow> Inl (not_enough_values 1)
         | [host, port] \<Rightarrow> Inr (host, port)
         | a # b # c # rest \<Rightarrow> Inl too_many_values)
      else Inr (bootstrap, ''443''))"

text \<open>\<^verbatim>\<open>shutil.which('kafka-topics.sh') or shutil.which('kafka-topics')\<close>.\<close>

definition kafka_bin :: "env \<Rightarrow> string option" where
  "kafka_bin e =
     (case which e ''kafka-topics.sh'' of
        Some path \<Rightarrow> Some path
      | None \<Rightarrow> which e ''kafka-topics'')"

text \<open>
  \<^verbatim>\<open>str.strip()\<close>; the characters below 256 that Python counts as white space.
\<close>

definition is_space :: "char \<Rightarrow> bool" where
  "is_space c =
     (c \<in> set [CHR 0x09, CHR 0x0A, CHR 0x0B, CHR 0x0C, CHR 0x0D, CHR 0x1C, CHR 0x1D,
                CHR 0x1E, CHR 0x1F, CHR 0x20, CHR 0x85, CHR 0xA0])"

definition strip :: "string \<Rightarrow> string" where
  "strip s = rev (dropWhile is_space (rev (dropWhile is_space s)))"

text \<open>
  \<^verbatim>\<open>[t.strip() for t in result.stdout.strip().split('\n') if t.strip()]\<close>
\<close>

definition parse_topics :: "string \<Rightarrow> string list" where
  "parse_topics out = map strip (filter (\<lambda>t. strip t \<noteq> []) (split_chr nl (strip out)))"

text \<open>\<^verbatim>\<open>a or b\<close> on strings.\<close>

definition str_or :: "string \<Rightarrow> string \<Rightarrow> string" where
  "str_or a b = (if a \<noteq> [] then a else b)"

definition cmd_kafka_topics :: "string \<Rightarrow> string \<Rightarrow> string \<Rightarrow> proc_call" where
  "cmd_kafka_topics bin properties_path bootstrap =
     \<lparr>argv = [bin, ''--list'', ''--command-config'', properties_path,
               ''--bootstrap-server'', bootstrap],
      timeout = Some 30, cwd = None, stdin = None\<rparr>"

subsection \<open>test_kafka_connection (main.py)\<close>

record TestResult =
  test_success :: bool
  message :: string
  details :: "string option"
  topics :: "string list option"

definition main_test_properties :: "string \<Rightarrow> string \<Rightarrow> string \<Rightarrow> string" where
  "main_test_properties truststore_path keystore_path password =
     text_lines
       [''security.protocol=SSL'',
        ''ssl.truststore.location='' @ truststore_path,
        ''ssl.truststore.password='' @ password,
        ''ssl.keystore.location='' @ keystore_path,
        ''ssl.keystore.password='' @ password,
        ''ssl.keystore.type=PKCS12'',
        ''ssl.key.password='' @ password,
        ''ssl.endpoint.identification.algorithm='']"

definition cmd_ssl :: "string \<Rightarrow> string \<Rightarrow> proc_call" where
  "cmd_ssl host port =
     \<lparr>argv = [''openssl'', ''s_client'', ''-connect'', host @ '':'' @ port, ''-brief''],
      timeout = Some 10, cwd = None, stdin = Some []\<rparr>"

text \<open>
  The fallback: one handshake attempt with \<^verbatim>\<open>openssl s_client\<close>. Only a timeout is
  handled here; any other exception reaches the outer handler.
\<close>

definition openssl_probe :: "env \<Rightarrow> string \<Rightarrow> string \<Rightarrow> (exn + TestResult) \<times> event list" where
  "openssl_probe e host port =
     (case subprocess_run e (cmd_ssl host port) of
        Inl (TimeoutExpired m) \<Rightarrow>
          (Inr \<lparr>test_success = False,
                message = ''Connection timeout to '' @ host @ '':'' @ port,
                details = Some ''The server did not respond within 10 seconds'',
                topics = None\<rparr>,
           [Ran (cmd_ssl host port)])
      | Inl (PyError m) \<Rightarrow> (Inl (PyError m), [Ran (cmd_ssl host port)])
      | Inr result \<Rightarrow>
          if py_in ''CONNECTED'' (stdout result) \<or> py_in ''CONNECTED'' (stderr result) then
            (Inr \<lparr>test_success = True,
                  message = ''SSL handshake successful with '' @ host @ '':'' @ port,
                  details = Some ''Kafka CLI not available - performed basic SSL connectivity test only'',
                  topics = None\<rparr>,
             [Ran (cmd_ssl host port)])
          else
            (Inr \<lparr>test_success = False,
                  message = ''Cannot establish SSL connection to '' @ host @ '':'' @ port,
                  details = Some (if stderr result \<noteq> [] then take 500 (stderr result)
                                  else ''Unknown error''),
                  topics = None\<rparr>,
             [Ran (cmd_ssl host port)]))"

text \<open>What follows the writing of the properties file.\<close>

definition main_probe :: "env \<Rightarrow> string \<Rightarrow> string \<Rightarrow> (exn + TestResult) \<times> event list" where
  "main_probe e work_dir bootstrap =
     (case kafka_bin e of
        Some bin \<Rightarrow>
          let cmd = cmd_kafka_topics bin (path_join work_dir ''client-ssl.properties'') bootstrap in
          (case subprocess_run e cmd of
             Inl ex \<Rightarrow> (Inl ex, [Ran cmd])
           | Inr result \<Rightarrow>
               if returncode result = 0 then
                 (Inr \<lparr>test_success = True,
                       message = ''Connection successful! Found ''
                                 @ str_nat (length (parse_topics (stdout result))) @ '' topics.'',
                       details = None,
                       topics = Some (parse_topics (stdout result))\<rparr>,
                  [Ran cmd])
               else
                 (Inr \<lparr>test_success = False,
                       message = ''Kafka connection failed'',
                       details = Some (str_or (stderr result) (stdout result)),
                       topics = None\<rparr>,
                  [Ran cmd]))
      | None \<Rightarrow>
          (case split_host_port bootstrap of
             Inl ex \<Rightarrow> (Inl ex, [])
           | Inr (host, port) \<Rightarrow> openssl_probe e host port))"

definition main_test_writes :: "string \<Rightarrow> string \<Rightarrow> string \<Rightarrow> string \<Rightarrow> (string \<times> string) list" where
  "main_test_writes work_dir truststore keystore password =
     [(path_join work_dir ''truststore.jks'', truststore),
      (path_join work_dir ''keystore.p12'', keystore),
      (path_join work_dir ''client-ssl.properties'',
       main_test_properties (path_join work_dir ''truststore.jks'')
         (path_join work_dir ''keystore.p12'') password)]"

text \<open>
  The endpoint. \<^verbatim>\<open>mkdtemp\<close> is called before the \<^verbatim>\<open>try\<close>; every exception of the body is
  turned into the result "Test failed" with the text of the exception.
\<close>

definition test_kafka_connection ::
  "env \<Rightarrow> string \<Rightarrow> string \<Rightarrow> string \<Rightarrow> string \<Rightarrow> (exn + TestResult) \<times> event list"
where
  "test_kafka_connection e truststore keystore password bootstrap =
     (case mkdtemp e of
        Inl ex \<Rightarrow> (Inl ex, [])
      | Inr work_dir \<Rightarrow>
          (case (case write_all e (main_test_writes work_dir truststore keystore password) of
                   (Some ex, evs) \<Rightarrow> (Inl ex, evs)
                 | (None, evs) \<Rightarrow>
                     (case main_probe e work_dir bootstrap of
                        (res, evs') \<Rightarrow> (res, evs @ evs'))) of
             (Inl ex, evs) \<Rightarrow>
               (Inr \<lparr>test_success = False, message = ''Test failed'',
                     details = Some (str_exn ex), topics = None\<rparr>,
                evs @ [Removed work_dir])
           | (Inr res, evs) \<Rightarrow> (Inr res, evs @ [Removed work_dir])))"

subsection \<open>test_kafka (app.py)\<close>

text \<open>
  The request: the form fields and the uploaded files that the handler reads. A file
  is \<open>None\<close> when the field is missing or when the upload is falsy (it has no file
  name). The reply is the dictionary given to \<^verbatim>\<open>jsonify\<close> and the status code.
\<close>

record request =
  form_bootstrap :: "string option"
  form_password :: "string option"
  file_truststore :: "string option"
  file_keystore :: "string option"
  file_ca_chain :: "string option"
  file_bundle :: "string option"
  file_key :: "string option"

type_synonym reply = "(string \<times> jval) list \<times> nat"

definition app_test_properties :: "string \<Rightarrow> string \<Rightarrow> string \<Rightarrow> string" where
  "app_test_properties truststore_path keystore_path password =
     text_lines
       [''security.protocol=SSL'',
        ''ssl.truststore.location='' @ truststore_path,
        ''ssl.truststore.password='' @ password,
        ''ssl.keystore.location='' @ keystore_path,
        ''ssl.keystore.password='' @ password,
        ''ssl.key.password='' @ password,
        ''ssl.endpoint.identification.algorithm='']"

text \<open>The Java program of the fallback; the f-string starts with a newline.\<close>

definition java_test_code ::
  "string \<Rightarrow> string \<Rightarrow> string \<Rightarrow> string \<Rightarrow> string \<Rightarrow> string"
where
  \<open>java_test_code truststore_path keystore_path password host port =
     text_lines
       [[],
        ''import javax.net.ssl.*;'',
        ''import java.io.*;'',
        ''import java.security.*;'',
        [],
        ''public class SSLTest {'',
        ''    public static void main(String[] args) {'',
        ''        System.setProperty("javax.net.ssl.trustStore", "'' @ truststore_path @ ''");'',
        ''        System.setProperty("javax.net.ssl.trustStorePassword", "'' @ password @ ''");'',
        ''        System.setProperty("javax.net.ssl.keyStore", "'' @ keystore_path @ ''");'',
        ''        System.setProperty("javax.net.ssl.keyStorePassword", "'' @ password @ ''");'',
        [],
        ''        try {'',
        ''            SSLSocketFactory factory = (SSLSocketFactory) SSLSocketFactory.getDefault();'',
        ''            SSLSocket socket = (SSLSocket) factory.createSocket("'' @ host @ ''", '' @ port @ '');'',
        ''            socket.startHandshake();'',
        [],
        ''            System.out.println("SUCCESS: SSL handshake completed");'',
        ''            System.out.println("Protocol: " + socket.getSession().getProtocol());'',
        ''            System.out.println("CipherSuite: " + socket.getSession().getCipherSuite());'',
        [],
        ''            socket.close();'',
        ''        } catch (Exception e) {'',
        ''            System.err.println("ERROR: " + e.getMessage());'',
        ''            e.printStackTrace();'',
        ''            System.exit(1);'',
        ''        }'',
        ''    }'',
        ''}'']\<close>

definition cmd_javac :: "string \<Rightarrow> proc_call" where
  "cmd_javac work_dir =
     \<lparr>argv = [''javac'', path_join work_dir ''SSLTest.java''],
      timeout = Some 10, cwd = Some work_dir, stdin = None\<rparr>"

definition cmd_java :: "string \<Rightarrow> proc_call" where
  "cmd_java work_dir =
     \<lparr>argv = [''java'', ''-cp'', work_dir, ''SSLTest''],
      timeout = Some 30, cwd = None, stdin = None\<rparr>"

text \<open>The two handlers of the inner \<^verbatim>\<open>try\<close>.\<close>

definition java_handler :: "string \<Rightarrow> string \<Rightarrow> exn \<Rightarrow> reply" where
  "java_handler host port ex =
     (case ex of
        TimeoutExpired m \<Rightarrow>
          ([(''success'', JBool False),
            (''error'', JStr (''Connection timeout to '' @ host @ '':'' @ port)),
            (''details'', JStr ''The server did not respond within 30 seconds'')], 200)
      | PyError m \<Rightarrow>
          ([(''success'', JBool False),
            (''error'', JStr ''Test execution failed''),
            (''details'', JStr m)], 500))"

text \<open>
  The inner \<^verbatim>\<open>try\<close>: compile the program, run it, and report. When the program exits
  with a non-zero status the details are the first 800 characters of its error stream,
  or of its output when the error stream is empty.
\<close>

definition java_probe :: "env \<Rightarrow> string \<Rightarrow> string \<Rightarrow> string \<Rightarrow> reply \<times> event list" where
  "java_probe e work_dir host port =
     (case subprocess_run e (cmd_javac work_dir) of
        Inl ex \<Rightarrow> (java_handler host port ex, [Ran (cmd_javac work_dir)])
      | Inr compile_result \<Rightarrow>
          if returncode compile_result \<noteq> 0 then
            (([(''success'', JBool False),
               (''error'', JStr ''Failed to compile SSL test''),
               (''details'', JStr (stderr compile_result))], 500),
             [Ran (cmd_javac work_dir)])
          else
            (case subprocess_run e (cmd_java work_dir) of
               Inl ex \<Rightarrow>
                 (java_handler host port ex, [Ran (cmd_javac work_dir), Ran (cmd_java work_dir)])
             | Inr run_result \<Rightarrow>
                 if returncode run_result = 0 then
                   (([(''success'', JBool True),
                      (''message'', JStr (''mTLS connection successful to '' @ host @ '':'' @ port)),
                      (''details'', JStr ''Certificate verification passed using generated JKS files''),
                      (''ssl_info'', JStr (stdout run_result))], 200),
                    [Ran (cmd_javac work_dir), Ran (cmd_java work_dir)])
                 else
                   (([(''success'', JBool False),
                      (''error'', JStr (''SSL connection failed to '' @ host @ '':'' @ port)),
                      (''details'',
                       JStr (take 800 (str_or (stderr run_result) (stdout run_result))))], 200),
                    [Ran (cmd_javac work_dir), Ran (cmd_java work_dir)])))"

text \<open>
  What follows the preparation of the two stores: the properties file, the Kafka
  command line tool when it is installed, the Java fallback otherwise.
\<close>

definition app_probe ::
  "env \<Rightarrow> string \<Rightarrow> string \<Rightarrow> string \<Rightarrow> (exn + reply) \<times> event list"
where
  "app_probe e work_dir bootstrap password =
     (let truststore_path = path_join work_dir ''truststore.jks'';
          keystore_path = path_join work_dir ''keystore.jks'';
          properties_path = path_join work_dir ''client-ssl.properties'';
          properties_content = app_test_properties truststore_path keystore_path password
      in
      case write_file e properties_path properties_content of
        Some ex \<Rightarrow> (Inl ex, [Wrote properties_path properties_content])
      | None \<Rightarrow>
          (case kafka_bin e of
             Some bin \<Rightarrow>
               let cmd = cmd_kafka_topics bin properties_path bootstrap in
               (case subprocess_run e cmd of
                  Inl ex \<Rightarrow> (Inl ex, [Wrote properties_path properties_content, Ran cmd])
                | Inr result \<Rightarrow>
                    if returncode result = 0 then
                      (Inr ([(''success'', JBool True),
                             (''message'', JStr ''Connection successful!''),
                             (''topics'', JList (parse_topics (stdout result))),
                             (''topics_count'',
                              JInt (int (length (parse_topics (stdout result)))))], 200),
                       [Wrote properties_path properties_content, Ran cmd])
                    else
                      (Inr ([(''success'', JBool False),
                             (''error'', JStr ''Kafka connection failed''),
                             (''details'', JStr (str_or (stderr result) (stdout result)))], 200),
                       [Wrote properties_path properties_content, Ran cmd]))
           | None \<Rightarrow>
               (case split_host_port bootstrap of
                  Inl ex \<Rightarrow> (Inl ex, [Wrote properties_path properties_content])
                | Inr (host, port) \<Rightarrow>
                    let java_file_path = path_join work_dir ''SSLTest.java'';
                        code = java_test_code truststore_path keystore_path password host port
                    in
                    (case write_file e java_file_path code of
                       Some ex \<Rightarrow>
                         (Inl ex,
                          [Wrote properties_path properties_content, Wrote java_file_path code])
                     | None \<Rightarrow>
                         (case java_probe e work_dir host port of
                            (rep, evs) \<Rightarrow>
                              (Inr rep,
                               Wrote properties_path properties_content
                               # Wrote java_file_path code # evs))))))"

text \<open>
  The preparation of the stores: uploaded as they are, or generated from the three
  certificate files by \<^verbatim>\<open>generate_stores\<close>, which runs in its own environment. It
  ends with the stores written, with a reply, or with an exception.
\<close>

datatype prepared = StoresReady | Replied reply | PrepareRaised exn

definition key_error :: "string \<Rightarrow> exn" where
  "key_error k = PyError ([CHR 0x27] @ k @ [CHR 0x27])"

definition generated_stores_writes ::
  "env \<Rightarrow> string \<Rightarrow> results \<Rightarrow> prepared \<times> event list"
where
  "generated_stores_writes e work_dir result =
     (case map_of (files result) ''truststore.jks'' of
        None \<Rightarrow> (PrepareRaised (key_error ''truststore.jks''), [])
      | Some ts \<Rightarrow>
          (case write_file e (path_join work_dir ''truststore.jks'') ts of
             Some ex \<Rightarrow> (PrepareRaised ex, [Wrote (path_join work_dir ''truststore.jks'') ts])
           | None \<Rightarrow>
               (case map_of (files result) ''keystore.jks'' of
                  None \<Rightarrow>
                    (PrepareRaised (key_error ''keystore.jks''),
                     [Wrote (path_join work_dir ''truststore.jks'') ts])
                | Some ks \<Rightarrow>
                    (case write_file e (path_join work_dir ''keystore.jks'') ks of
                       Some ex \<Rightarrow>
                         (PrepareRaised ex,
                          [Wrote (path_join work_dir ''truststore.jks'') ts,
                           Wrote (path_join work_dir ''keystore.jks'') ks])
                     | None \<Rightarrow>
                         (StoresReady,
                          [Wrote (path_join work_dir ''truststore.jks'') ts,
                           Wrote (path_join work_dir ''keystore.jks'') ks])))))"

definition prepare_stores ::
  "env \<Rightarrow> env \<Rightarrow> string \<Rightarrow> string \<Rightarrow> request \<Rightarrow> prepared \<times> event list"
where
  "prepare_stores e ge work_dir password req =
     (case (file_truststore req, file_keystore req) of
        (Some ts, Some ks) \<Rightarrow>
          (case write_all e [(path_join work_dir ''truststore.jks'', ts),
                             (path_join work_dir ''keystore.jks'', ks)] of
             (Some ex, evs) \<Rightarrow> (PrepareRaised ex, evs)
           | (None, evs) \<Rightarrow> (StoresReady, evs))
      | _ \<Rightarrow>
          (case (file_ca_chain req, file_bundle req, file_key req) of
             (Some ca_raw, Some bundle_raw, Some key_raw) \<Rightarrow>
               (case utf8_decode e ca_raw of
                  Inl ex \<Rightarrow> (PrepareRaised ex, [])
                | Inr ca_chain_content \<Rightarrow>
               (case utf8_decode e bundle_raw of
                  Inl ex \<Rightarrow> (PrepareRaised ex, [])
                | Inr bundle_content \<Rightarrow>
               (case utf8_decode e key_raw of
                  Inl ex \<Rightarrow> (PrepareRaised ex, [])
                | Inr key_content \<Rightarrow>
                    (case generate_stores ge ca_chain_content bundle_content key_content
                            ''kafka-test'' password password of
                       (Inl ex, evs) \<Rightarrow> (PrepareRaised ex, evs)
                     | (Inr result, evs) \<Rightarrow>
                         if \<not> success result then
                           (Replied ([(''success'', JBool False),
                                      (''error'', JStr ''Failed to generate stores''),
                                      (''details'', JList (errors result))], 400),
                            evs)
                         else
                           (case generated_stores_writes e work_dir result of
                              (p, evs') \<Rightarrow> (p, evs @ evs'))))))
           | _ \<Rightarrow>
               (Replied ([(''success'', JBool False),
                          (''error'',
                           JStr ''Please provide either JKS files (truststore + keystore) or certificate files (ca_chain, bundle, key)'')],
                         400),
                [])))"

text \<open>The form field \<^verbatim>\<open>password\<close>, with its default.\<close>

definition request_password :: "request \<Rightarrow> string" where
  "request_password req = (case form_password req of None \<Rightarrow> ''changeit'' | Some p \<Rightarrow> p)"

text \<open>The body of the outer \<^verbatim>\<open>try\<close>.\<close>

definition test_kafka_body ::
  "env \<Rightarrow> env \<Rightarrow> string \<Rightarrow> request \<Rightarrow> (exn + reply) \<times> event list"
where
  "test_kafka_body e ge work_dir req =
     (let password = request_password req in
      case form_bootstrap req of
        None \<Rightarrow>
          (Inr ([(''success'', JBool False), (''error'', JStr ''Bootstrap server is required'')],
                400), [])
      | Some bootstrap \<Rightarrow>
          if bootstrap = [] then
            (Inr ([(''success'', JBool False),
                   (''error'', JStr ''Bootstrap server is required'')], 400), [])
          else
            (case prepare_stores e ge work_dir password req of
               (PrepareRaised ex, evs) \<Rightarrow> (Inl ex, evs)
             | (Replied rep, evs) \<Rightarrow> (Inr rep, evs)
             | (StoresReady, evs) \<Rightarrow>
                 (case app_probe e work_dir bootstrap password of
                    (res, evs') \<Rightarrow> (res, evs @ evs'))))"

text \<open>
  The handler. \<^verbatim>\<open>mkdtemp\<close> is called before the \<^verbatim>\<open>try\<close>; an exception of the body
  becomes the reply with status 500 and the text of the exception.
\<close>

definition test_kafka :: "env \<Rightarrow> env \<Rightarrow> request \<Rightarrow> (exn + reply) \<times> event list" where
  "test_kafka e ge req =
     (case mkdtemp e of
        Inl ex \<Rightarrow> (Inl ex, [])
      | Inr work_dir \<Rightarrow>
          (case test_kafka_body e ge work_dir req of
             (Inl ex, evs) \<Rightarrow>
               (Inr ([(''success'', JBool False), (''error'', JStr (str_exn ex))], 500),
                evs @ [Removed work_dir])
           | (Inr rep, evs) \<Rightarrow> (Inr rep, evs @ [Removed work_dir])))"

section \<open>The host and port of the fallback\<close>

lemma startswith_Nil: "startswith s []"
  by (cases s) simp_all

lemma py_in_single: "py_in [c] s \<longleftrightarrow> c \<in> set s"
  by (induction s) (auto simp: startswith_Nil)

lemma length_split_chr: "length (split_chr c s) = Suc (count_list s c)"
  by (induction s) (auto split: list.splits simp: split_chr_nonempty)

lemma split_chr_two: "c \<notin> set a \<Longrightarrow> c \<notin> set b \<Longrightarrow> split_chr c (a @ c # b) = [a, b]"
  by (simp add: split_chr_append split_chr_no_sep)

lemma split_host_port_default:
  "\<not> py_in '':'' bootstrap \<Longrightarrow> split_host_port bootstrap = Inr (bootstrap, ''443'')"
  by (simp add: split_host_port_def)

lemma split_host_port_one_colon:
  assumes "CHR '':'' \<notin> set host" "CHR '':'' \<notin> set port"
  shows "split_host_port (host @ '':'' @ port) = Inr (host, port)"
  using assms by (simp add: split_host_port_def py_in_single split_chr_two)

lemma split_host_port_many:
  assumes "2 \<le> count_list bootstrap (CHR '':'')"
  shows "split_host_port bootstrap = Inl too_many_values"
proof -
  from assms have "CHR '':'' \<in> set bootstrap"
    by (metis count_list_0_iff not_numeral_le_zero)
  then have p: "py_in '':'' bootstrap" by (simp add: py_in_single)
  let ?l = "split_chr (CHR '':'') bootstrap"
  from assms have len: "3 \<le> length ?l"
    by (simp add: length_split_chr)
  then obtain a r1 where l1: "?l = a # r1" by (cases ?l) auto
  with len obtain b r2 where l2: "r1 = b # r2" by (cases r1) auto
  with l1 len obtain c rest where l3: "r2 = c # rest" by (cases r2) auto
  from l1 l2 l3 have "?l = a # b # c # rest" by simp
  with p show ?thesis by (simp add: split_host_port_def)
qed

subsection \<open>Reaching the fallback of test_kafka\<close>

text \<open>
  The path of \<^verbatim>\<open>test_kafka\<close> to its fallback: the work directory is created, the
  form has a bootstrap server, the two stores are in place, the properties file is
  written and no Kafka command line tool is installed.
\<close>

definition app_properties_path :: "string \<Rightarrow> string" where
  "app_properties_path work_dir = path_join work_dir ''client-ssl.properties''"

definition app_properties :: "string \<Rightarrow> string \<Rightarrow> string" where
  "app_properties work_dir password =
     app_test_properties (path_join work_dir ''truststore.jks'')
       (path_join work_dir ''keystore.jks'') password"

definition app_java_code :: "string \<Rightarrow> string \<Rightarrow> string \<Rightarrow> string \<Rightarrow> string" where
  "app_java_code work_dir password host port =
     java_test_code (path_join work_dir ''truststore.jks'')
       (path_join work_dir ''keystore.jks'') password host port"

definition fallback_reached :: "env \<Rightarrow> env \<Rightarrow> string \<Rightarrow> request \<Rightarrow> string \<Rightarrow> bool" where
  "fallback_reached e ge work_dir req bootstrap =
     (mkdtemp e = Inr work_dir
      \<and> form_bootstrap req = Some bootstrap \<and> bootstrap \<noteq> []
      \<and> fst (prepare_stores e ge work_dir (request_password req) req) = StoresReady
      \<and> write_file e (app_properties_path work_dir)
           (app_properties work_dir (request_password req)) = None
      \<and> kafka_bin e = None)"

lemma app_probe_fallback:
  assumes "write_file e (app_properties_path wd) (app_properties wd pw) = None"
    and "kafka_bin e = None"
  shows "app_probe e wd bootstrap pw =
     (case split_host_port bootstrap of
        Inl ex \<Rightarrow> (Inl ex, [Wrote (app_properties_path wd) (app_properties wd pw)])
      | Inr (host, port) \<Rightarrow>
          (case write_file e (path_join wd ''SSLTest.java'') (app_java_code wd pw host port) of
             Some ex \<Rightarrow>
               (Inl ex, [Wrote (app_properties_path wd) (app_properties wd pw),
                         Wrote (path_join wd ''SSLTest.java'') (app_java_code wd pw host port)])
           | None \<Rightarrow>
               (Inr (fst (java_probe e wd host port)),
                Wrote (app_properties_path wd) (app_properties wd pw)
                # Wrote (path_join wd ''SSLTest.java'') (app_java_code wd pw host port)
                # snd (java_probe e wd host port))))"
  using assms
  by (simp add: app_probe_def app_properties_path_def app_properties_def app_java_code_def
      Let_def split: sum.splits prod.splits option.splits)

lemma test_kafka_fallback:
  assumes "fallback_reached e ge wd req bootstrap"
  shows "test_kafka e ge req =
     (case app_probe e wd bootstrap (request_password req) of
        (Inl ex, evs) \<Rightarrow>
          (Inr ([(''success'', JBool False), (''error'', JStr (str_exn ex))], 500),
           snd (prepare_stores e ge wd (request_password req) req) @ evs @ [Removed wd])
      | (Inr rep, evs) \<Rightarrow>
          (Inr rep, snd (prepare_stores e ge wd (request_password req) req) @ evs @ [Removed wd]))"
proof -
  obtain evs0 where p: "prepare_stores e ge wd (request_password req) req = (StoresReady, evs0)"
    using assms by (cases "prepare_stores e ge wd (request_password req) req")
      (simp add: fallback_reached_def)
  obtain res evs where a: "app_probe e wd bootstrap (request_password req) = (res, evs)"
    by (cases "app_probe e wd bootstrap (request_password req)") auto
  from assms p a show ?thesis
    by (cases res) (simp_all add: test_kafka_def test_kafka_body_def fallback_reached_def Let_def)
qed

text \<open>
  C8, as the code has it. An endpoint without a colon is split into itself and the
  port 443; an endpoint with exactly one colon is split into the text before it and
  the text after it. When no Kafka command line tool is installed the fallback of
  main.py runs \<^verbatim>\<open>openssl s_client -connect host:port\<close> and the fallback of app.py
  writes the Java program that opens a socket to that host and port.
\<close>

theorem fallback_host_and_port:
  "(\<not> py_in '':'' bootstrap \<longrightarrow> split_host_port bootstrap = Inr (bootstrap, ''443''))
   \<and> (\<forall>host port.
         bootstrap = host @ '':'' @ port \<and> CHR '':'' \<notin> set host \<and> CHR '':'' \<notin> set port
         \<longrightarrow> split_host_port bootstrap = Inr (host, port))
   \<and> (\<forall>host port.
         kafka_bin e = None \<and> split_host_port bootstrap = Inr (host, port) \<longrightarrow>
           main_probe e wd bootstrap = openssl_probe e host port
           \<and> invoked (snd (openssl_probe e host port)) = [cmd_ssl host port]
           \<and> argv (cmd_ssl host port)
               = [''openssl'', ''s_client'', ''-connect'', host @ '':'' @ port, ''-brief'']
           \<and> (write_file e (app_properties_path wd) (app_properties wd pw) = None
                \<and> write_file e (path_join wd ''SSLTest.java'') (app_java_code wd pw host port) = None
                \<longrightarrow> app_probe e wd bootstrap pw
                    = (Inr (fst (java_probe e wd host port)),
                       Wrote (app_properties_path wd) (app_properties wd pw)
                       # Wrote (path_join wd ''SSLTest.java'') (app_java_code wd pw host port)
                       # snd (java_probe e wd host port))))"
proof (intro conjI allI impI)
  assume "\<not> py_in '':'' bootstrap"
  then show "split_host_port bootstrap = Inr (bootstrap, ''443'')"
    by (rule split_host_port_default)
next
  fix host port
  assume "bootstrap = host @ '':'' @ port \<and> CHR '':'' \<notin> set host \<and> CHR '':'' \<notin> set port"
  then show "split_host_port bootstrap = Inr (host, port)"
    using split_host_port_one_colon[of host port] by simp
next
  fix host port
  assume h: "kafka_bin e = None \<and> split_host_port bootstrap = Inr (host, port)"
  then show "main_probe e wd bootstrap = openssl_probe e host port"
    by (simp add: main_probe_def)
  show "invoked (snd (openssl_probe e host port)) = [cmd_ssl host port]"
    by (simp add: openssl_probe_def split: sum.splits exn.splits)
  show "argv (cmd_ssl host port)
               = [''openssl'', ''s_client'', ''-connect'', host @ '':'' @ port, ''-brief'']"
    by (simp add: cmd_ssl_def)
  assume w: "write_file e (app_properties_path wd) (app_properties wd pw) = None
                \<and> write_file e (path_join wd ''SSLTest.java'') (app_java_code wd pw host port) = None"
  with h show "app_probe e wd bootstrap pw
                    = (Inr (fst (java_probe e wd host port)),
                       Wrote (app_properties_path wd) (app_properties wd pw)
                       # Wrote (path_join wd ''SSLTest.java'') (app_java_code wd pw host port)
                       # snd (java_probe e wd host port))"
    using app_probe_fallback[of e wd pw bootstrap] by simp
qed

theorem fallback_host_and_port_witness:
  "\<not> py_in '':'' ''broker''
   \<and> split_host_port ''broker'' = Inr (''broker'', ''443'')
   \<and> kafka_bin env_all_ok = None
   \<and> main_probe env_all_ok ''/tmp/w'' ''broker'' = openssl_probe env_all_ok ''broker'' ''443''
   \<and> argv (cmd_ssl ''broker'' ''443'')
       = [''openssl'', ''s_client'', ''-connect'', ''broker:443'', ''-brief'']
   \<and> split_host_port ''broker:9093'' = Inr (''broker'', ''9093'')
   \<and> main_probe env_all_ok ''/tmp/w'' ''broker:9093'' = openssl_probe env_all_ok ''broker'' ''9093''"
proof -
  have a: "\<not> py_in '':'' ''broker''" by simp
  have k: "kafka_bin env_all_ok = None" by (simp add: kafka_bin_def env_all_ok_def)
  note t1 = fallback_host_and_port[of "''broker''" env_all_ok "''/tmp/w''" "''pw''"]
  note t2 = fallback_host_and_port[of "''broker:9093''" env_all_ok "''/tmp/w''" "''pw''"]
  from t1[THEN conjunct1, rule_format, OF a]
  have s1: "split_host_port ''broker'' = Inr (''broker'', ''443'')" .
  from t1[THEN conjunct2, THEN conjunct2, rule_format, of "''broker''" "''443''"] k s1
  have m1: "main_probe env_all_ok ''/tmp/w'' ''broker'' = openssl_probe env_all_ok ''broker'' ''443''"
    and c1: "argv (cmd_ssl ''broker'' ''443'')
       = [''openssl'', ''s_client'', ''-connect'', ''broker:443'', ''-brief'']"
    by simp_all
  have b: "''broker:9093'' = ''broker'' @ '':'' @ ''9093''
           \<and> CHR '':'' \<notin> set ''broker'' \<and> CHR '':'' \<notin> set ''9093''" by simp
  from t2[THEN conjunct2, THEN conjunct1, rule_format, OF b]
  have s2: "split_host_port ''broker:9093'' = Inr (''broker'', ''9093'')" .
  from t2[THEN conjunct2, THEN conjunct2, rule_format, of "''broker''" "''9093''"] k s2
  have m2: "main_probe env_all_ok ''/tmp/w'' ''broker:9093'' = openssl_probe env_all_ok ''broker'' ''9093''"
    by simp
  from a s1 k m1 c1 s2 m2 show ?thesis by (simp only: simp_thms)
qed

text \<open>
  With a colon present the text after it is not always used as the port: on an
  endpoint with several colons the unpacking raises and no handshake is attempted.
\<close>

theorem port_after_colon_not_used:
  "py_in '':'' ''[::1]:9093''
   \<and> split_host_port ''[::1]:9093'' = Inl too_many_values
   \<and> fst (test_kafka_connection env_all_ok ''TS'' ''KS'' ''pw'' ''[::1]:9093'')
       = Inr \<lparr>test_success = False, message = ''Test failed'',
              details = Some ''too many values to unpack (expected 2)'', topics = None\<rparr>
   \<and> invoked (snd (test_kafka_connection env_all_ok ''TS'' ''KS'' ''pw'' ''[::1]:9093'')) = []"
  by code_simp

section \<open>The diagnostic of the Java fallback\<close>

text \<open>
  The reply of \<^verbatim>\<open>test_kafka\<close> when the test program exits with a non-zero status, and
  the length of the \<^verbatim>\<open>details\<close> string of a reply.
\<close>

definition java_failure_reply :: "string \<Rightarrow> string \<Rightarrow> completed \<Rightarrow> reply" where
  "java_failure_reply host port run_result =
     ([(''success'', JBool False),
       (''error'', JStr (''SSL connection failed to '' @ host @ '':'' @ port)),
       (''details'', JStr (take 800 (str_or (stderr run_result) (stdout run_result))))], 200)"

definition details_length :: "reply \<Rightarrow> nat option" where
  "details_length rep =
     (case map_of (fst rep) ''details'' of
        Some (JStr d) \<Rightarrow> Some (length d)
      | _ \<Rightarrow> None)"

text \<open>
  C9. When the test program compiles and then exits with a non-zero status, the reply
  of the fallback, and so the reply of \<^verbatim>\<open>test_kafka\<close> on every path that reaches the
  fallback, carries as details the first 800 characters of the program's error
  stream (of its output when the error stream is empty): at most 800 characters.
\<close>

theorem java_failure_details_truncated:
  assumes "subprocess_run e (cmd_javac wd) = Inr compile_result"
    and "returncode compile_result = 0"
    and "subprocess_run e (cmd_java wd) = Inr run_result"
    and "returncode run_result \<noteq> 0"
  shows "java_probe e wd host port
           = (java_failure_reply host port run_result, [Ran (cmd_javac wd), Ran (cmd_java wd)])
         \<and> details_length (java_failure_reply host port run_result)
             = Some (min 800 (length (str_or (stderr run_result) (stdout run_result))))
         \<and> (\<exists>n. details_length (fst (java_probe e wd host port)) = Some n \<and> n \<le> 800)
         \<and> (fallback_reached e ge wd req bootstrap
             \<and> split_host_port bootstrap = Inr (host, port)
             \<and> write_file e (path_join wd ''SSLTest.java'')
                  (app_java_code wd (request_password req) host port) = None
             \<longrightarrow> fst (test_kafka e ge req) = Inr (java_failure_reply host port run_result))"
proof -
  have jp: "java_probe e wd host port
           = (java_failure_reply host port run_result, [Ran (cmd_javac wd), Ran (cmd_java wd)])"
    using assms by (simp add: java_probe_def java_failure_reply_def)
  have dl: "details_length (java_failure_reply host port run_result)
             = Some (min 800 (length (str_or (stderr run_result) (stdout run_result))))"
    by (simp add: details_length_def java_failure_reply_def min.commute)
  have ex: "\<exists>n. details_length (fst (java_probe e wd host port)) = Some n \<and> n \<le> 800"
    by (simp add: jp dl)
  have tk: "fst (test_kafka e ge req) = Inr (java_failure_reply host port run_result)"
    if r: "fallback_reached e ge wd req bootstrap
             \<and> split_host_port bootstrap = Inr (host, port)
             \<and> write_file e (path_join wd ''SSLTest.java'')
                  (app_java_code wd (request_password req) host port) = None"
  proof -
    from r have fr: "fallback_reached e ge wd req bootstrap" by simp
    from r have "app_probe e wd bootstrap (request_password req)
        = (Inr (fst (java_probe e wd host port)),
           Wrote (app_properties_path wd) (app_properties wd (request_password req))
           # Wrote (path_join wd ''SSLTest.java'') (app_java_code wd (request_password req) host port)
           # snd (java_probe e wd host port))"
      using app_probe_fallback[of e wd "request_password req" bootstrap]
      by (simp add: fallback_reached_def)
    with test_kafka_fallback[OF fr] show ?thesis by (simp add: jp)
  qed
  from jp dl ex tk show ?thesis by blast
qed

text \<open>
  An environment where the test program fails with an error stream of 1000 characters,
  and a request that uploads the two stores.
\<close>

definition env_java_fails :: env where
  "env_java_fails =
     env_all_ok\<lparr>subprocess_run :=
       (\<lambda>c. if c = cmd_java ''/tmp/w''
            then Inr \<lparr>returncode = 1, stdout = [], stderr = replicate 1000 (CHR ''x'')\<rparr>
            else Inr completed_ok)\<rparr>"

definition request_with_stores :: "string \<Rightarrow> request" where
  "request_with_stores bootstrap =
     \<lparr>form_bootstrap = Some bootstrap, form_password = None,
      file_truststore = Some ''TS'', file_keystore = Some ''KS'',
      file_ca_chain = None, file_bundle = None, file_key = None\<rparr>"

theorem java_failure_details_truncated_witness:
  "subprocess_run env_java_fails (cmd_javac ''/tmp/w'') = Inr completed_ok
   \<and> returncode completed_ok = 0
   \<and> subprocess_run env_java_fails (cmd_java ''/tmp/w'')
       = Inr \<lparr>returncode = 1, stdout = [], stderr = replicate 1000 (CHR ''x'')\<rparr>
   \<and> fallback_reached env_java_fails env_all_ok ''/tmp/w'' (request_with_stores ''broker'') ''broker''
   \<and> fst (test_kafka env_java_fails env_all_ok (request_with_stores ''broker''))
       = Inr ([(''success'', JBool False),
               (''error'', JStr ''SSL connection failed to broker:443''),
               (''details'', JStr (replicate 800 (CHR ''x'')))], 200)
   \<and> details_length ([(''success'', JBool False),
               (''error'', JStr ''SSL connection failed to broker:443''),
               (''details'', JStr (replicate 800 (CHR ''x'')))], 200) = Some 800"
proof -
  have a1: "subprocess_run env_java_fails (cmd_javac ''/tmp/w'') = Inr completed_ok"
    by (simp add: env_java_fails_def env_all_ok_def cmd_javac_def cmd_java_def)
  have a2: "returncode completed_ok = 0"
    by (simp add: completed_ok_def)
  have a3: "subprocess_run env_java_fails (cmd_java ''/tmp/w'')
       = Inr \<lparr>returncode = 1, stdout = [], stderr = replicate 1000 (CHR ''x'')\<rparr>"
    by (simp add: env_java_fails_def env_all_ok_def)
  have a4: "returncode \<lparr>returncode = 1, stdout = [], stderr = replicate 1000 (CHR ''x'')\<rparr> \<noteq> 0"
    by simp
  have p: "prepare_stores env_java_fails env_all_ok ''/tmp/w''
             (request_password (request_with_stores ''broker'')) (request_with_stores ''broker'')
           = (StoresReady, [Wrote (path_join ''/tmp/w'' ''truststore.jks'') ''TS'',
                            Wrote (path_join ''/tmp/w'' ''keystore.jks'') ''KS''])"
    by (simp add: prepare_stores_def request_with_stores_def env_java_fails_def env_all_ok_def)
  have f: "fallback_reached env_java_fails env_all_ok ''/tmp/w'' (request_with_stores ''broker'') ''broker''"
    by (simp add: fallback_reached_def p)
       (simp add: request_with_stores_def env_java_fails_def env_all_ok_def kafka_bin_def)
  have s: "split_host_port ''broker'' = Inr (''broker'', ''443'')"
    by (simp add: split_host_port_def)
  have w: "write_file env_java_fails (path_join ''/tmp/w'' ''SSLTest.java'')
             (app_java_code ''/tmp/w'' (request_password (request_with_stores ''broker''))
                ''broker'' ''443'') = None"
    by (simp add: env_java_fails_def env_all_ok_def)
  note t = java_failure_details_truncated[OF a1 a2 a3 a4,
      of "''broker''" "''443''" env_all_ok "request_with_stores ''broker''" "''broker''"]
  from t[THEN conjunct2, THEN conjunct2, THEN conjunct2, rule_format] f s w
  have r: "fst (test_kafka env_java_fails env_all_ok (request_with_stores ''broker''))
       = Inr (java_failure_reply ''broker'' ''443''
               \<lparr>returncode = 1, stdout = [], stderr = replicate 1000 (CHR ''x'')\<rparr>)"
    by simp
  have v: "java_failure_reply ''broker'' ''443''
               \<lparr>returncode = 1, stdout = [], stderr = replicate 1000 (CHR ''x'')\<rparr>
       = ([(''success'', JBool False),
               (''error'', JStr ''SSL connection failed to broker:443''),
               (''details'', JStr (replicate 800 (CHR ''x'')))], 200)"
    by (simp add: java_failure_reply_def str_or_def)
  have d: "details_length ([(''success'', JBool False),
               (''error'', JStr ''SSL connection failed to broker:443''),
               (''details'', JStr (replicate 800 (CHR ''x'')))], 200) = Some 800"
    by (simp add: details_length_def)
  from a1 a2 a3 f r v d show ?thesis by (simp only: simp_thms)
qed

section \<open>Endpoints with several colons\<close>

text \<open>
  C10. On an endpoint with two or more colons, when no Kafka command line tool is
  installed, the unpacking of the split raises: main.py answers "Test failed" with the
  text of the exception and has run no external program; app.py answers with status
  500 and the text of the exception, and nothing is run or written after the
  properties file.
\<close>

theorem many_colons_generic_failure:
  assumes "2 \<le> count_list bootstrap (CHR '':'')"
    and "kafka_bin e = None"
    and "mkdtemp e = Inr wd"
  shows "split_host_port bootstrap = Inl too_many_values
         \<and> (fst (write_all e (main_test_writes wd truststore keystore password)) = None \<longrightarrow>
              test_kafka_connection e truststore keystore password bootstrap
              = (Inr \<lparr>test_success = False, message = ''Test failed'',
                      details = Some ''too many values to unpack (expected 2)'',
                      topics = None\<rparr>,
                 snd (write_all e (main_test_writes wd truststore keystore password))
                 @ [Removed wd])
              \<and> invoked (snd (test_kafka_connection e truststore keystore password bootstrap))
                  = [])
         \<and> (form_bootstrap req = Some bootstrap
             \<and> fst (prepare_stores e ge wd (request_password req) req) = StoresReady
             \<and> write_file e (app_properties_path wd)
                  (app_properties wd (request_password req)) = None \<longrightarrow>
              test_kafka e ge req
              = (Inr ([(''success'', JBool False),
                       (''error'', JStr ''too many values to unpack (expected 2)'')], 500),
                 snd (prepare_stores e ge wd (request_password req) req)
                 @ [Wrote (app_properties_path wd) (app_properties wd (request_password req)),
                    Removed wd]))"
proof (intro conjI impI)
  show sp: "split_host_port bootstrap = Inl too_many_values"
    using assms(1) by (rule split_host_port_many)
  have mp: "main_probe e wd bootstrap = (Inl too_many_values, [])"
    using assms(2) sp by (simp add: main_probe_def)
  {
    assume w: "fst (write_all e (main_test_writes wd truststore keystore password)) = None"
    obtain evs where wa: "write_all e (main_test_writes wd truststore keystore password) = (None, evs)"
      using w by (cases "write_all e (main_test_writes wd truststore keystore password)") simp
    from wa mp assms(3)
    show tk: "test_kafka_connection e truststore keystore password bootstrap
              = (Inr \<lparr>test_success = False, message = ''Test failed'',
                      details = Some ''too many values to unpack (expected 2)'',
                      topics = None\<rparr>,
                 snd (write_all e (main_test_writes wd truststore keystore password))
                 @ [Removed wd])"
      by (simp add: test_kafka_connection_def too_many_values_def)
    show "invoked (snd (test_kafka_connection e truststore keystore password bootstrap)) = []"
      by (simp add: tk invoked_append invoked_write_all)
  }
  assume h: "form_bootstrap req = Some bootstrap
             \<and> fst (prepare_stores e ge wd (request_password req) req) = StoresReady
             \<and> write_file e (app_properties_path wd)
                  (app_properties wd (request_password req)) = None"
  from assms(1) have ne: "bootstrap \<noteq> []" by auto
  from h ne assms(2,3) have fr: "fallback_reached e ge wd req bootstrap"
    by (simp add: fallback_reached_def)
  from h assms(2) sp have "app_probe e wd bootstrap (request_password req)
      = (Inl too_many_values,
         [Wrote (app_properties_path wd) (app_properties wd (request_password req))])"
    using app_probe_fallback[of e wd "request_password req" bootstrap] by simp
  with test_kafka_fallback[OF fr]
  show "test_kafka e ge req
              = (Inr ([(''success'', JBool False),
                       (''error'', JStr ''too many values to unpack (expected 2)'')], 500),
                 snd (prepare_stores e ge wd (request_password req) req)
                 @ [Wrote (app_properties_path wd) (app_properties wd (request_password req)),
                    Removed wd])"
    by (simp add: too_many_values_def)
qed

theorem many_colons_generic_failure_witness:
  "2 \<le> count_list ''2001:db8::1'' (CHR '':'')
   \<and> kafka_bin env_all_ok = None
   \<and> mkdtemp env_all_ok = Inr ''/tmp/w''
   \<and> split_host_port ''2001:db8::1'' = Inl too_many_values
   \<and> fst (test_kafka_connection env_all_ok ''TS'' ''KS'' ''pw'' ''2001:db8::1'')
       = Inr \<lparr>test_success = False, message = ''Test failed'',
              details = Some ''too many values to unpack (expected 2)'', topics = None\<rparr>
   \<and> invoked (snd (test_kafka_connection env_all_ok ''TS'' ''KS'' ''pw'' ''2001:db8::1'')) = []
   \<and> fst (test_kafka env_all_ok env_all_ok (request_with_stores ''2001:db8::1''))
       = Inr ([(''success'', JBool False),
               (''error'', JStr ''too many values to unpack (expected 2)'')], 500)"
proof -
  have a1: "2 \<le> count_list ''2001:db8::1'' (CHR '':'')" by simp
  have a2: "kafka_bin env_all_ok = None" by (simp add: kafka_bin_def env_all_ok_def)
  have a3: "mkdtemp env_all_ok = Inr ''/tmp/w''" by (simp add: env_all_ok_def)
  have w: "fst (write_all env_all_ok (main_test_writes ''/tmp/w'' ''TS'' ''KS'' ''pw'')) = None"
    by (simp add: main_test_writes_def env_all_ok_def)
  have p: "form_bootstrap (request_with_stores ''2001:db8::1'') = Some ''2001:db8::1''
             \<and> fst (prepare_stores env_all_ok env_all_ok ''/tmp/w''
                      (request_password (request_with_stores ''2001:db8::1''))
                      (request_with_stores ''2001:db8::1'')) = StoresReady
             \<and> write_file env_all_ok (app_properties_path ''/tmp/w'')
                  (app_properties ''/tmp/w''
                     (request_password (request_with_stores ''2001:db8::1''))) = None"
    by (simp add: prepare_stores_def request_with_stores_def env_all_ok_def)
  note t = many_colons_generic_failure[OF a1 a2 a3,
      of "''TS''" "''KS''" "''pw''" "request_with_stores ''2001:db8::1''" env_all_ok]
  from t have s: "split_host_port ''2001:db8::1'' = Inl too_many_values"
    by (rule conjunct1)
  note tm = t[THEN conjunct2, THEN conjunct1, rule_format, OF w]
  from tm[THEN conjunct1]
  have m: "fst (test_kafka_connection env_all_ok ''TS'' ''KS'' ''pw'' ''2001:db8::1'')
       = Inr \<lparr>test_success = False, message = ''Test failed'',
              details = Some ''too many values to unpack (expected 2)'', topics = None\<rparr>"
    by simp
  from tm[THEN conjunct2]
  have i: "invoked (snd (test_kafka_connection env_all_ok ''TS'' ''KS'' ''pw'' ''2001:db8::1'')) = []" .
  from t[THEN conjunct2, THEN conjunct2, rule_format, OF p]
  have k: "fst (test_kafka env_all_ok env_all_ok (request_with_stores ''2001:db8::1''))
       = Inr ([(''success'', JBool False),
               (''error'', JStr ''too many values to unpack (expected 2)'')], 500)"
    by simp
  from a1 a2 a3 s m i k show ?thesis by (simp only: simp_thms)
qed

end
